theory Spec2Isabelle
  imports Complex_Main
begin

section \<open>Data model\<close>

text \<open>
  The two scripts \<^verbatim>\<open>NN_data.py\<close> and \<^verbatim>\<open>neural_network_data.py\<close> read shower
  objects with the attributes \<^verbatim>\<open>Run\<close>, \<^verbatim>\<open>Reconstruction\<close>, \<^verbatim>\<open>Primary\<close> and
  \<^verbatim>\<open>Signals\<close>. The signal block holds parallel sequences, one entry per tank.
  Python floats are modelled as exact reals: infinities and NaN are outside the model,
  and so is rounding, except in the double precision version of \<^verbatim>\<open>avg_runs\<close>
  below. Run numbers are integers, type labels are strings. Of \<^verbatim>\<open>Tank\<close> only
  the length is ever read.
\<close>

record signals =
  Tank :: "string list"
  LatDist :: "real list"
  TotalPE :: "real list"
  TotalVEM :: "real list"
  MuonPE :: "real list"
  nMuons :: "real list"
  TimeDelay :: "real list"

record reconstruction =
  Energy :: real
  zen :: real
  E_Proton :: real
  E_Iron :: real

record primary =
  Type :: string

record shower =
  Run :: int
  Reconstruction :: reconstruction
  Primary :: primary
  Signals :: signals

text \<open>
  The row \<^verbatim>\<open>[Run,Energy,Zen,TimeDelay,Q,MuonVEM,nMuons,Type]\<close> that
  \<^verbatim>\<open>process_showers\<close> appends and \<^verbatim>\<open>avg_runs\<close> reads by position
  (\<^verbatim>\<open>shower[0]\<close> \<dots> \<^verbatim>\<open>shower[6]\<close>), one field per position.
\<close>

record row =
  row_Run :: int
  row_Energy :: real
  row_Zen :: real
  row_TimeDelay :: real
  row_Q :: real
  row_MuonVEM :: real
  row_nMuons :: real
  row_Type :: string

text \<open>
  The row \<^verbatim>\<open>[E_proton,E_iron,Zen,Q400,MuonVEM,nMuon,Type]\<close> of
  \<^verbatim>\<open>neural_network_data.py\<close>.
\<close>

record row400 =
  r4_E_proton :: real
  r4_E_iron :: real
  r4_Zen :: real
  r4_Q400 :: real
  r4_MuonVEM :: real
  r4_nMuon :: real
  r4_Type :: string

text \<open>The module-level lists of \<^verbatim>\<open>neural_network_data.py\<close>.\<close>

record module_state =
  NNdata300 :: "row400 list"
  NNdata400 :: "row400 list"

section \<open>Exceptions\<close>

text \<open>
  The only operations of the two functions that can raise are indexing a sequence
  and dividing. Neither script defines an exception class of its own and neither
  contains a \<^verbatim>\<open>raise\<close> statement.

  Every index comes from \<^verbatim>\<open>range\<close>, so it is a natural number, and reading past
  the end of a sequence raises \<^verbatim>\<open>IndexError\<close>. Every \<^verbatim>\<open>/\<close> of the two functions
  has a float operand; a zero divisor raises \<^verbatim>\<open>ZeroDivisionError\<close> in the model, as
  it does for Python floats.
\<close>

datatype py_error = IndexError | ZeroDivisionError

definition getitem :: "'a list \<Rightarrow> nat \<Rightarrow> py_error + 'a" where
  "getitem xs i = (if i < length xs then Inr (xs ! i) else Inl IndexError)"

definition truediv :: "real \<Rightarrow> real \<Rightarrow> py_error + real" where
  "truediv a b = (if b = 0 then Inl ZeroDivisionError else Inr (a / b))"

definition and_then :: "py_error + 'a \<Rightarrow> ('a \<Rightarrow> py_error + 'b) \<Rightarrow> py_error + 'b" where
  "and_then r f = (case r of Inl e \<Rightarrow> Inl e | Inr v \<Rightarrow> f v)"

text \<open>A \<^verbatim>\<open>for\<close> loop over a sequence whose body may raise: the first exception ends it.\<close>

fun for_in :: "'x list \<Rightarrow> ('x \<Rightarrow> 'a \<Rightarrow> py_error + 'a) \<Rightarrow> 'a \<Rightarrow> py_error + 'a" where
  "for_in [] body a = Inr a"
| "for_in (x # xs) body a = and_then (body x a) (for_in xs body)"

section \<open>NN\_data.py: process\_showers\<close>

text \<open>The four running sums \<^verbatim>\<open>TimeDelay\<close>, \<^verbatim>\<open>Q\<close>, \<^verbatim>\<open>MuonVEM\<close>, \<^verbatim>\<open>nMuons\<close>.\<close>

record running =
  s_TimeDelay :: real
  s_Q :: real
  s_MuonVEM :: real
  s_nMuons :: real

text \<open>The local \<^verbatim>\<open>cut_dist = 400\<close> of line 15.\<close>

definition cut_dist :: real where
  "cut_dist = 400"

text \<open>
  The body of \<^verbatim>\<open>for i in range(len(shower.Signals.Tank))\<close>, lines 24 to 33.
  \<^verbatim>\<open>and\<close> evaluates its right operand only when the left one holds, so
  \<^verbatim>\<open>TotalPE[i]\<close> is read only for a tank beyond the cut.
\<close>

definition tank_body :: "signals \<Rightarrow> nat \<Rightarrow> running \<Rightarrow> py_error + running" where
  "tank_body sg i a =
     and_then (getitem (LatDist sg) i) (\<lambda>latDist.
     if \<not> latDist \<ge> cut_dist then Inr a else
     and_then (getitem (TotalPE sg) i) (\<lambda>pe.
     if \<not> pe \<noteq> 0 then Inr a else
     and_then (getitem (TotalVEM sg) i) (\<lambda>totalVEM.
     and_then (getitem (TotalPE sg) i) (\<lambda>totalPE.
     and_then (truediv totalVEM totalPE) (\<lambda>scale.
     and_then (getitem (MuonPE sg) i) (\<lambda>muonPE.
     let scaledPE = scale * muonPE in
     and_then (getitem (nMuons sg) i) (\<lambda>n.
     let a1 = a\<lparr>s_nMuons := s_nMuons a + n\<rparr>;
         a2 = a1\<lparr>s_MuonVEM := s_MuonVEM a1 + scaledPE\<rparr> in
     if totalVEM \<ge> 0.6 \<and> totalVEM \<le> 2.0 then
       and_then (getitem (TimeDelay sg) i) (\<lambda>timeDelay.
       let a3 = a2\<lparr>s_TimeDelay := s_TimeDelay a2 + \<bar>timeDelay\<bar>\<rparr> in
       Inr (a3\<lparr>s_Q := s_Q a3 + totalVEM\<rparr>))
     else Inr a2)))))))"

text \<open>The body of \<^verbatim>\<open>for shower in showers\<close> up to the row it appends, lines 10 to 35.\<close>

definition shower_row :: "shower \<Rightarrow> py_error + row" where
  "shower_row sh =
     and_then
       (for_in [0 ..< length (Tank (Signals sh))] (tank_body (Signals sh))
          \<lparr>s_TimeDelay = 0, s_Q = 0, s_MuonVEM = 0, s_nMuons = 0\<rparr>)
       (\<lambda>a. Inr \<lparr>row_Run = Run sh,
                 row_Energy = Energy (Reconstruction sh),
                 row_Zen = zen (Reconstruction sh),
                 row_TimeDelay = s_TimeDelay a,
                 row_Q = s_Q a,
                 row_MuonVEM = s_MuonVEM a,
                 row_nMuons = s_nMuons a,
                 row_Type = Type (Primary sh)\<rparr>)"

definition process_showers :: "shower list \<Rightarrow> py_error + row list" where
  "process_showers showers =
     for_in showers
       (\<lambda>sh List. and_then (shower_row sh) (\<lambda>r. Inr (List @ [r]))) []"

section \<open>NN\_data.py: avg\_runs\<close>

text \<open>
  Iterating over a Python set yields each element once, in an order the language
  leaves open. The model enumerates the set in ascending order; the results below
  use only that every element appears exactly once.
\<close>

definition set_iter :: "int set \<Rightarrow> int list" where
  "set_iter S = sorted_list_of_set S"

record totals =
  t_nShowers :: real
  t_Energy_tot :: real
  t_Zen_tot :: real
  t_TimeDelay_tot :: real
  t_Q_tot :: real
  t_MuonVEM_tot :: real
  t_nMuons_tot :: real

text \<open>The body of the inner \<^verbatim>\<open>for shower in List\<close>, lines 56 to 63.\<close>

definition add_shower :: "int \<Rightarrow> row \<Rightarrow> totals \<Rightarrow> totals" where
  "add_shower run sh t =
     (if row_Run sh = run then
        \<lparr>t_nShowers = t_nShowers t + 1,
         t_Energy_tot = t_Energy_tot t + row_Energy sh,
         t_Zen_tot = t_Zen_tot t + row_Zen sh,
         t_TimeDelay_tot = t_TimeDelay_tot t + row_TimeDelay sh,
         t_Q_tot = t_Q_tot t + row_Q sh,
         t_MuonVEM_tot = t_MuonVEM_tot t + row_MuonVEM sh,
         t_nMuons_tot = t_nMuons_tot t + row_nMuons sh\<rparr>
      else t)"

definition run_totals :: "int \<Rightarrow> row list \<Rightarrow> totals" where
  "run_totals run List =
     fold (add_shower run) List
       \<lparr>t_nShowers = 0, t_Energy_tot = 0, t_Zen_tot = 0, t_TimeDelay_tot = 0,
        t_Q_tot = 0, t_MuonVEM_tot = 0, t_nMuons_tot = 0\<rparr>"

text \<open>The body of \<^verbatim>\<open>for Run in run_list\<close> up to the row it appends, lines 48 to 71.\<close>

definition avg_row :: "row list \<Rightarrow> string \<Rightarrow> int \<Rightarrow> py_error + row" where
  "avg_row List ty run =
     (let t = run_totals run List in
      and_then (truediv (t_Energy_tot t) (t_nShowers t)) (\<lambda>Energy_avg.
      and_then (truediv (t_Zen_tot t) (t_nShowers t)) (\<lambda>Zen_avg.
      and_then (truediv (t_TimeDelay_tot t) (t_nShowers t)) (\<lambda>TimeDelay_avg.
      and_then (truediv (t_Q_tot t) (t_nShowers t)) (\<lambda>Q_avg.
      and_then (truediv (t_MuonVEM_tot t) (t_nShowers t)) (\<lambda>MuonVEM_avg.
      and_then (truediv (t_nMuons_tot t) (t_nShowers t)) (\<lambda>nMuons_avg.
      Inr \<lparr>row_Run = run, row_Energy = Energy_avg, row_Zen = Zen_avg,
           row_TimeDelay = TimeDelay_avg, row_Q = Q_avg, row_MuonVEM = MuonVEM_avg,
           row_nMuons = nMuons_avg, row_Type = ty\<rparr>)))))))"

definition avg_runs :: "row list \<Rightarrow> string \<Rightarrow> py_error + row list" where
  "avg_runs List ty =
     (let run_list = fold (\<lambda>sh S. insert (row_Run sh) S) List {} in
      for_in (set_iter run_list)
        (\<lambda>run avgList. and_then (avg_row List ty run) (\<lambda>r. Inr (avgList @ [r]))) [])"

section \<open>neural\_network\_data.py: process\_shower\<close>

record running400 =
  s4_Q400 :: real
  s4_MuonVEM :: real
  s4_nMuon :: real

text \<open>The loop body, lines 21 to 29: the cut is strict and no time delay is read.\<close>

definition tank_body400 :: "signals \<Rightarrow> nat \<Rightarrow> running400 \<Rightarrow> py_error + running400" where
  "tank_body400 sg i a =
     and_then (getitem (LatDist sg) i) (\<lambda>latDist.
     if \<not> latDist > 400 then Inr a else
     and_then (getitem (TotalPE sg) i) (\<lambda>pe.
     if \<not> pe \<noteq> 0 then Inr a else
     and_then (getitem (TotalVEM sg) i) (\<lambda>totalVEM.
     and_then (getitem (TotalPE sg) i) (\<lambda>totalPE.
     and_then (truediv totalVEM totalPE) (\<lambda>scale.
     and_then (getitem (MuonPE sg) i) (\<lambda>muonPE.
     let scaledPE = scale * muonPE in
     and_then (getitem (nMuons sg) i) (\<lambda>n.
     let a1 = a\<lparr>s4_nMuon := s4_nMuon a + n\<rparr>;
         a2 = a1\<lparr>s4_MuonVEM := s4_MuonVEM a1 + scaledPE\<rparr> in
     if totalVEM \<ge> 0.6 \<and> totalVEM \<le> 2.0 then
       Inr (a2\<lparr>s4_Q400 := s4_Q400 a2 + totalVEM\<rparr>)
     else Inr a2)))))))"

text \<open>
  \<^verbatim>\<open>process_shower\<close> has no \<^verbatim>\<open>return\<close>: its result is the module state, with
  the new row appended to \<^verbatim>\<open>NNdata400\<close>.
\<close>

definition process_shower :: "shower \<Rightarrow> module_state \<Rightarrow> py_error + module_state" where
  "process_shower sh st =
     and_then
       (for_in [0 ..< length (Tank (Signals sh))] (tank_body400 (Signals sh))
          \<lparr>s4_Q400 = 0, s4_MuonVEM = 0, s4_nMuon = 0\<rparr>)
       (\<lambda>a. Inr (st\<lparr>NNdata400 := NNdata400 st @
                 [\<lparr>r4_E_proton = E_Proton (Reconstruction sh),
                   r4_E_iron = E_Iron (Reconstruction sh),
                   r4_Zen = zen (Reconstruction sh),
                   r4_Q400 = s4_Q400 a,
                   r4_MuonVEM = s4_MuonVEM a,
                   r4_nMuon = s4_nMuon a,
                   r4_Type = Type (Primary sh)\<rparr>]\<rparr>))"

section \<open>Double precision\<close>

text \<open>
  The totals and quotients of \<^verbatim>\<open>avg_runs\<close> are Python floats, that is IEEE binary64
  numbers: every \<^verbatim>\<open>+\<close> and every \<^verbatim>\<open>/\<close> returns the exact result rounded to the
  nearest number with a significand of 53 bits, and of two nearest numbers the one
  with the even significand. The exponent range is not bounded here: overflow to
  infinity, NaN and the coarser spacing of subnormal numbers are outside the model.
\<close>

text \<open>The integer nearest to \<open>y\<close>; at a tie the even one.\<close>

definition round_half_even :: "real \<Rightarrow> int" where
  "round_half_even y =
     (let n = \<lfloor>y\<rfloor> in
      if y - of_int n < 1 / 2 then n
      else if y - of_int n > 1 / 2 then n + 1
      else if even n then n else n + 1)"

text \<open>The exponent \<open>e\<close> with \<open>2\<^sup>e \<le> \<bar>x\<bar> < 2\<^sup>e\<^sup>+\<^sup>1\<close>.\<close>

definition binade :: "real \<Rightarrow> int" where
  "binade x = \<lfloor>log 2 \<bar>x\<bar>\<rfloor>"

text \<open>Between \<open>2\<^sup>e\<close> and \<open>2\<^sup>e\<^sup>+\<^sup>1\<close> the doubles are the multiples of \<open>2\<^sup>e\<^sup>-\<^sup>5\<^sup>2\<close>.\<close>

definition double_round :: "real \<Rightarrow> real" where
  "double_round x =
     (if x = 0 then 0
      else of_int (round_half_even (x / 2 powi (binade x - 52))) * 2 powi (binade x - 52))"

definition add64 :: "real \<Rightarrow> real \<Rightarrow> real" where
  "add64 a b = double_round (a + b)"

definition truediv64 :: "real \<Rightarrow> real \<Rightarrow> py_error + real" where
  "truediv64 a b = (if b = 0 then Inl ZeroDivisionError else Inr (double_round (a / b)))"

section \<open>NN\_data.py: avg\_runs in double precision\<close>

text \<open>
  The definitions of \<^verbatim>\<open>avg_runs\<close> once more, line by line, with every \<^verbatim>\<open>+=\<close> and
  every \<^verbatim>\<open>/\<close> rounded. The version in exact arithmetic above serves the results
  on which rows are returned, where the arithmetic plays no part; this one serves the
  results on the values of the means.
\<close>

definition add_shower64 :: "int \<Rightarrow> row \<Rightarrow> totals \<Rightarrow> totals" where
  "add_shower64 run sh t =
     (if row_Run sh = run then
        \<lparr>t_nShowers = add64 (t_nShowers t) 1,
         t_Energy_tot = add64 (t_Energy_tot t) (row_Energy sh),
         t_Zen_tot = add64 (t_Zen_tot t) (row_Zen sh),
         t_TimeDelay_tot = add64 (t_TimeDelay_tot t) (row_TimeDelay sh),
         t_Q_tot = add64 (t_Q_tot t) (row_Q sh),
         t_MuonVEM_tot = add64 (t_MuonVEM_tot t) (row_MuonVEM sh),
         t_nMuons_tot = add64 (t_nMuons_tot t) (row_nMuons sh)\<rparr>
      else t)"

definition run_totals64 :: "int \<Rightarrow> row list \<Rightarrow> totals" where
  "run_totals64 run List =
     fold (add_shower64 run) List
       \<lparr>t_nShowers = 0, t_Energy_tot = 0, t_Zen_tot = 0, t_TimeDelay_tot = 0,
        t_Q_tot = 0, t_MuonVEM_tot = 0, t_nMuons_tot = 0\<rparr>"

definition avg_row64 :: "row list \<Rightarrow> string \<Rightarrow> int \<Rightarrow> py_error + row" where
  "avg_row64 List ty run =
     (let t = run_totals64 run List in
      and_then (truediv64 (t_Energy_tot t) (t_nShowers t)) (\<lambda>Energy_avg.
      and_then (truediv64 (t_Zen_tot t) (t_nShowers t)) (\<lambda>Zen_avg.
      and_then (truediv64 (t_TimeDelay_tot t) (t_nShowers t)) (\<lambda>TimeDelay_avg.
      and_then (truediv64 (t_Q_tot t) (t_nShowers t)) (\<lambda>Q_avg.
      and_then (truediv64 (t_MuonVEM_tot t) (t_nShowers t)) (\<lambda>MuonVEM_avg.
      and_then (truediv64 (t_nMuons_tot t) (t_nShowers t)) (\<lambda>nMuons_avg.
      Inr \<lparr>row_Run = run, row_Energy = Energy_avg, row_Zen = Zen_avg,
           row_TimeDelay = TimeDelay_avg, row_Q = Q_avg, row_MuonVEM = MuonVEM_avg,
           row_nMuons = nMuons_avg, row_Type = ty\<rparr>)))))))"

definition avg_runs64 :: "row list \<Rightarrow> string \<Rightarrow> py_error + row list" where
  "avg_runs64 List ty =
     (let run_list = fold (\<lambda>sh S. insert (row_Run sh) S) List {} in
      for_in (set_iter run_list)
        (\<lambda>run avgList. and_then (avg_row64 List ty run) (\<lambda>r. Inr (avgList @ [r]))) [])"

section \<open>Predicates of the specification\<close>

text \<open>
  The predicates of this section are not functions of the source: they name what the
  specification speaks of. A signal block is readable when every sequence the loop
  indexes has an entry for each tank; the parallel sequences of equal length that the
  specification asks for are readable.
\<close>

definition readable :: "signals \<Rightarrow> bool" where
  "readable sg =
     (length (Tank sg) \<le> length (LatDist sg) \<and>
      length (Tank sg) \<le> length (TotalPE sg) \<and>
      length (Tank sg) \<le> length (TotalVEM sg) \<and>
      length (Tank sg) \<le> length (MuonPE sg) \<and>
      length (Tank sg) \<le> length (nMuons sg) \<and>
      length (Tank sg) \<le> length (TimeDelay sg))"

text \<open>The same without \<^verbatim>\<open>TimeDelay\<close>, which \<^verbatim>\<open>process_shower\<close> never reads.\<close>

definition readable400 :: "signals \<Rightarrow> bool" where
  "readable400 sg =
     (length (Tank sg) \<le> length (LatDist sg) \<and>
      length (Tank sg) \<le> length (TotalPE sg) \<and>
      length (Tank sg) \<le> length (TotalVEM sg) \<and>
      length (Tank sg) \<le> length (MuonPE sg) \<and>
      length (Tank sg) \<le> length (nMuons sg))"

text \<open>
  Step 1 of the specification's extractor: lateral distance at least the cut radius of
  400 and a nonzero photoelectron count; and the variant with the strict comparison
  that the specification mentions beside it.
\<close>

definition spec_selected :: "signals \<Rightarrow> nat \<Rightarrow> bool" where
  "spec_selected sg i = (LatDist sg ! i \<ge> 400 \<and> TotalPE sg ! i \<noteq> 0)"

definition strictly_selected :: "signals \<Rightarrow> nat \<Rightarrow> bool" where
  "strictly_selected sg i = (LatDist sg ! i > 400 \<and> TotalPE sg ! i \<noteq> 0)"

text \<open>Step 3 of the specification's extractor: the band \<open>0.6 \<le> total_VEM \<le> 2.0\<close>.\<close>

definition spec_in_band :: "signals \<Rightarrow> nat \<Rightarrow> bool" where
  "spec_in_band sg i = (0.6 \<le> TotalVEM sg ! i \<and> TotalVEM sg ! i \<le> 2.0)"

text \<open>
  The unweighted arithmetic mean of one field over the rows of one run, in the words
  of the specification of the run aggregator.
\<close>

definition spec_mean :: "(row \<Rightarrow> real) \<Rightarrow> int \<Rightarrow> row list \<Rightarrow> real" where
  "spec_mean field run List =
     (\<Sum>sh\<leftarrow>filter (\<lambda>sh. row_Run sh = run) List. field sh) /
     real (length (filter (\<lambda>sh. row_Run sh = run) List))"

text \<open>A real number that is a double: rounding leaves it as it is.\<close>

definition is_double :: "real \<Rightarrow> bool" where
  "is_double v = (double_round v = v)"

text \<open>
  The mean as the aggregator computes it: the values of the field added up one by one
  from 0 in the order of the input, the rows counted the same way, and the quotient,
  each operation rounded.
\<close>

definition sum64 :: "real list \<Rightarrow> real" where
  "sum64 vs = fold (\<lambda>v acc. add64 acc v) vs 0"

definition spec_mean64 :: "(row \<Rightarrow> real) \<Rightarrow> int \<Rightarrow> row list \<Rightarrow> real" where
  "spec_mean64 field run List =
     double_round
       (sum64 (map field (filter (\<lambda>sh. row_Run sh = run) List)) /
        sum64 (map (\<lambda>sh. 1) (filter (\<lambda>sh. row_Run sh = run) List)))"

section \<open>Examples\<close>

text \<open>
  The two-tank shower of the specification's end-to-end example: tank A lies beyond
  the cut, tank B inside it.
\<close>

definition example_shower :: shower where
  "example_shower =
     \<lparr>Run = 7,
      Reconstruction = \<lparr>Energy = 1, zen = 0, E_Proton = 2, E_Iron = 3\<rparr>,
      Primary = \<lparr>Type = ''PPlus''\<rparr>,
      Signals = \<lparr>Tank = [''A'', ''B''], LatDist = [500, 300], TotalPE = [10, 8],
                 TotalVEM = [1.0, 0.8], MuonPE = [5, 4], nMuons = [2, 1],
                 TimeDelay = [3.0, 1.0]\<rparr>\<rparr>"

text \<open>A selected tank whose charge of 2.1 VEM lies above the band.\<close>

definition example_above_band :: shower where
  "example_above_band =
     \<lparr>Run = 7,
      Reconstruction = \<lparr>Energy = 1, zen = 0, E_Proton = 2, E_Iron = 3\<rparr>,
      Primary = \<lparr>Type = ''PPlus''\<rparr>,
      Signals = \<lparr>Tank = [''A''], LatDist = [500], TotalPE = [10],
                 TotalVEM = [2.1], MuonPE = [5], nMuons = [2], TimeDelay = [3.0]\<rparr>\<rparr>"

text \<open>A tank at exactly 400 length units from the core.\<close>

definition example_on_cut :: shower where
  "example_on_cut =
     \<lparr>Run = 7,
      Reconstruction = \<lparr>Energy = 1, zen = 0, E_Proton = 2, E_Iron = 3\<rparr>,
      Primary = \<lparr>Type = ''PPlus''\<rparr>,
      Signals = \<lparr>Tank = [''A''], LatDist = [400], TotalPE = [10],
                 TotalVEM = [1.0], MuonPE = [5], nMuons = [2], TimeDelay = [3.0]\<rparr>\<rparr>"

text \<open>
  Two tanks, but one entry only for the photoelectrons, charges and muons, and three
  time delays.
\<close>

definition example_mismatched :: shower where
  "example_mismatched =
     \<lparr>Run = 7,
      Reconstruction = \<lparr>Energy = 1, zen = 0, E_Proton = 2, E_Iron = 3\<rparr>,
      Primary = \<lparr>Type = ''PPlus''\<rparr>,
      Signals = \<lparr>Tank = [''A'', ''B''], LatDist = [500, 300], TotalPE = [10],
                 TotalVEM = [1.0], MuonPE = [5], nMuons = [2],
                 TimeDelay = [3.0, 1.0, 0]\<rparr>\<rparr>"

text \<open>The module state of \<^verbatim>\<open>neural_network_data.py\<close> before the first call.\<close>

definition empty_state :: module_state where
  "empty_state = \<lparr>NNdata300 = [], NNdata400 = []\<rparr>"

text \<open>A shower with one tank and no lateral distance at all.\<close>

definition example_no_LatDist :: shower where
  "example_no_LatDist =
     \<lparr>Run = 7,
      Reconstruction = \<lparr>Energy = 1, zen = 0, E_Proton = 2, E_Iron = 3\<rparr>,
      Primary = \<lparr>Type = ''PPlus''\<rparr>,
      Signals = \<lparr>Tank = [''A''], LatDist = [], TotalPE = [10],
                 TotalVEM = [1.0], MuonPE = [5], nMuons = [2], TimeDelay = [3.0]\<rparr>\<rparr>"

text \<open>
  The two rows of the specification's aggregation example: one run, charge sums 1 and
  3, every other field 0.
\<close>

definition example_rows :: "row list" where
  "example_rows =
     [\<lparr>row_Run = 5, row_Energy = 0, row_Zen = 0, row_TimeDelay = 0, row_Q = 1,
       row_MuonVEM = 0, row_nMuons = 0, row_Type = ''PPlus''\<rparr>,
      \<lparr>row_Run = 5, row_Energy = 0, row_Zen = 0, row_TimeDelay = 0, row_Q = 3,
       row_MuonVEM = 0, row_nMuons = 0, row_Type = ''PPlus''\<rparr>]"

text \<open>One row, to be aggregated with copies of itself.\<close>

definition example_row :: row where
  "example_row =
     \<lparr>row_Run = 5, row_Energy = 1 / 10, row_Zen = 1 / 3, row_TimeDelay = 3, row_Q = 1,
      row_MuonVEM = 1 / 2, row_nMuons = 2, row_Type = ''PPlus''\<rparr>"

text \<open>
  A row whose energy is the double nearest to 0.1, which Python prints as
  \<^verbatim>\<open>0.1\<close>.
\<close>

definition example_tenth :: row where
  "example_tenth =
     \<lparr>row_Run = 5, row_Energy = 3602879701896397 / 36028797018963968, row_Zen = 0,
      row_TimeDelay = 0, row_Q = 0, row_MuonVEM = 0, row_nMuons = 0, row_Type = ''PPlus''\<rparr>"

section \<open>Exceptions and loops\<close>

lemma and_then_Inr: "and_then (Inr v) f = f v"
  by (simp add: and_then_def)

lemma and_then_Inl: "and_then (Inl e) f = Inl e"
  by (simp add: and_then_def)

lemma and_then_eq_Inr: "and_then r f = Inr y \<longleftrightarrow> (\<exists>v. r = Inr v \<and> f v = Inr y)"
  by (cases r) (simp_all add: and_then_def)

lemma and_then_eq_Inl: "and_then r f = Inl e \<longleftrightarrow> r = Inl e \<or> (\<exists>v. r = Inr v \<and> f v = Inl e)"
  by (cases r) (simp_all add: and_then_def)

lemma getitem_in_range: "i < length xs \<Longrightarrow> getitem xs i = Inr (xs ! i)"
  by (simp add: getitem_def)

lemma truediv_nonzero: "b \<noteq> 0 \<Longrightarrow> truediv a b = Inr (a / b)"
  by (simp add: truediv_def)

lemma for_in_never:
  assumes "\<And>x a. body x a \<noteq> Inl e"
  shows "for_in xs body a \<noteq> Inl e"
proof (induction xs arbitrary: a)
  case Nil
  show ?case by simp
next
  case (Cons x xs)
  show ?case
  proof (cases "body x a")
    case (Inl e')
    with assms [of x a] show ?thesis by (simp add: and_then_Inl)
  next
    case (Inr b)
    with Cons.IH [of b] show ?thesis by (simp add: and_then_Inr)
  qed
qed

lemma for_in_error:
  assumes "\<And>x a e'. body x a = Inl e' \<Longrightarrow> e' = e" and "for_in xs body a = Inl e'"
  shows "e' = e"
proof (rule ccontr)
  assume "e' \<noteq> e"
  with assms(1) have "\<And>x a. body x a \<noteq> Inl e'" by blast
  from for_in_never [of body e' xs a, OF this] assms(2) show False by simp
qed

lemma for_in_fails:
  assumes "x \<in> set xs" and "\<And>a. body x a = Inl e"
    and "\<And>y a e'. body y a = Inl e' \<Longrightarrow> e' = e"
  shows "for_in xs body a = Inl e"
  using assms(1)
proof (induction xs arbitrary: a)
  case Nil
  then show ?case by simp
next
  case (Cons y ys)
  show ?case
  proof (cases "body y a")
    case (Inl e')
    with assms(3) [of y a e'] show ?thesis by (simp add: and_then_Inl)
  next
    case (Inr b)
    with assms(2) [of a] have "x \<noteq> y" by auto
    with Cons.prems have "x \<in> set ys" by simp
    from Cons.IH [OF this, of b] Inr show ?thesis by (simp add: and_then_Inr)
  qed
qed

lemma for_in_collect_iff:
  "for_in xs (\<lambda>x acc. and_then (f x) (\<lambda>r. Inr (acc @ [r]))) acc = Inr out \<longleftrightarrow>
     (\<exists>rs. out = acc @ rs \<and> map f xs = map Inr rs)"
proof (induction xs arbitrary: acc)
  case Nil
  show ?case by auto
next
  case (Cons x xs)
  show ?case
  proof (cases "f x")
    case (Inl e)
    then show ?thesis by (auto simp: and_then_Inl Cons_eq_map_conv)
  next
    case (Inr r)
    have "(\<exists>rs. out = (acc @ [r]) @ rs \<and> map f xs = map Inr rs) \<longleftrightarrow>
          (\<exists>rs. out = acc @ rs \<and> f x # map f xs = map Inr rs)"
      using Inr by (auto simp: Cons_eq_map_conv)
    with Cons.IH [of "acc @ [r]"] Inr show ?thesis by (simp add: and_then_Inr)
  qed
qed

section \<open>The loop over the tanks\<close>

lemma tank_body_skip:
  assumes "readable sg" and "i < length (Tank sg)" and "\<not> spec_selected sg i"
  shows "tank_body sg i a = Inr a"
  using assms
  by (auto simp: tank_body_def readable_def spec_selected_def cut_dist_def
      getitem_in_range and_then_Inr)

lemma tank_body_out_of_band:
  assumes "readable sg" and "i < length (Tank sg)" and "spec_selected sg i"
    and "\<not> spec_in_band sg i"
  shows "tank_body sg i a =
     Inr (a\<lparr>s_nMuons := s_nMuons a + nMuons sg ! i,
            s_MuonVEM := s_MuonVEM a + TotalVEM sg ! i / TotalPE sg ! i * MuonPE sg ! i\<rparr>)"
  using assms
  by (auto simp: tank_body_def readable_def spec_selected_def spec_in_band_def cut_dist_def
      getitem_in_range and_then_Inr truediv_nonzero Let_def)

lemma tank_body_in_band:
  assumes "readable sg" and "i < length (Tank sg)" and "spec_selected sg i"
    and "spec_in_band sg i"
  shows "tank_body sg i a =
     Inr (a\<lparr>s_nMuons := s_nMuons a + nMuons sg ! i,
            s_MuonVEM := s_MuonVEM a + TotalVEM sg ! i / TotalPE sg ! i * MuonPE sg ! i,
            s_TimeDelay := s_TimeDelay a + \<bar>TimeDelay sg ! i\<bar>,
            s_Q := s_Q a + TotalVEM sg ! i\<rparr>)"
  using assms
  by (auto simp: tank_body_def readable_def spec_selected_def spec_in_band_def cut_dist_def
      getitem_in_range and_then_Inr truediv_nonzero Let_def)

lemma tank_body_step:
  assumes "readable sg" and "i < length (Tank sg)"
  shows "\<exists>b. tank_body sg i a = Inr b \<and>
     s_nMuons b = s_nMuons a + (if spec_selected sg i then nMuons sg ! i else 0) \<and>
     s_MuonVEM b = s_MuonVEM a +
       (if spec_selected sg i then TotalVEM sg ! i / TotalPE sg ! i * MuonPE sg ! i else 0) \<and>
     s_TimeDelay b = s_TimeDelay a +
       (if spec_selected sg i \<and> spec_in_band sg i then \<bar>TimeDelay sg ! i\<bar> else 0) \<and>
     s_Q b = s_Q a +
       (if spec_selected sg i \<and> spec_in_band sg i then TotalVEM sg ! i else 0)"
proof -
  consider (skip) "\<not> spec_selected sg i"
    | (out) "spec_selected sg i" "\<not> spec_in_band sg i"
    | (band) "spec_selected sg i" "spec_in_band sg i"
    by blast
  then show ?thesis
  proof cases
    case skip
    with tank_body_skip [OF assms, of a] show ?thesis by simp
  next
    case out
    with tank_body_out_of_band [OF assms, of a] show ?thesis by simp
  next
    case band
    with tank_body_in_band [OF assms, of a] show ?thesis by simp
  qed
qed

lemma tank_loop_sums:
  assumes "readable sg" and "\<forall>i\<in>set js. i < length (Tank sg)"
  shows "\<exists>a'. for_in js (tank_body sg) a = Inr a' \<and>
     s_nMuons a' = s_nMuons a + (\<Sum>i\<leftarrow>filter (spec_selected sg) js. nMuons sg ! i) \<and>
     s_MuonVEM a' = s_MuonVEM a +
       (\<Sum>i\<leftarrow>filter (spec_selected sg) js. TotalVEM sg ! i / TotalPE sg ! i * MuonPE sg ! i) \<and>
     s_TimeDelay a' = s_TimeDelay a +
       (\<Sum>i\<leftarrow>filter (\<lambda>i. spec_selected sg i \<and> spec_in_band sg i) js. \<bar>TimeDelay sg ! i\<bar>) \<and>
     s_Q a' = s_Q a +
       (\<Sum>i\<leftarrow>filter (\<lambda>i. spec_selected sg i \<and> spec_in_band sg i) js. TotalVEM sg ! i)"
  using assms(2)
proof (induction js arbitrary: a)
  case Nil
  then show ?case by simp
next
  case (Cons j js)
  have j: "j < length (Tank sg)" and rest: "\<forall>i\<in>set js. i < length (Tank sg)"
    using Cons.prems by simp_all
  from tank_body_step [OF assms(1) j, of a] obtain b where
    b: "tank_body sg j a = Inr b"
    and b1: "s_nMuons b = s_nMuons a + (if spec_selected sg j then nMuons sg ! j else 0)"
    and b2: "s_MuonVEM b = s_MuonVEM a +
       (if spec_selected sg j then TotalVEM sg ! j / TotalPE sg ! j * MuonPE sg ! j else 0)"
    and b3: "s_TimeDelay b = s_TimeDelay a +
       (if spec_selected sg j \<and> spec_in_band sg j then \<bar>TimeDelay sg ! j\<bar> else 0)"
    and b4: "s_Q b = s_Q a +
       (if spec_selected sg j \<and> spec_in_band sg j then TotalVEM sg ! j else 0)"
    by blast
  from Cons.IH [OF rest, of b] obtain a' where
    a: "for_in js (tank_body sg) b = Inr a'"
    and a1: "s_nMuons a' = s_nMuons b + (\<Sum>i\<leftarrow>filter (spec_selected sg) js. nMuons sg ! i)"
    and a2: "s_MuonVEM a' = s_MuonVEM b +
       (\<Sum>i\<leftarrow>filter (spec_selected sg) js. TotalVEM sg ! i / TotalPE sg ! i * MuonPE sg ! i)"
    and a3: "s_TimeDelay a' = s_TimeDelay b +
       (\<Sum>i\<leftarrow>filter (\<lambda>i. spec_selected sg i \<and> spec_in_band sg i) js. \<bar>TimeDelay sg ! i\<bar>)"
    and a4: "s_Q a' = s_Q b +
       (\<Sum>i\<leftarrow>filter (\<lambda>i. spec_selected sg i \<and> spec_in_band sg i) js. TotalVEM sg ! i)"
    by blast
  have "for_in (j # js) (tank_body sg) a = Inr a'"
    by (simp add: b a and_then_Inr)
  moreover have "s_nMuons a' = s_nMuons a + (\<Sum>i\<leftarrow>filter (spec_selected sg) (j # js). nMuons sg ! i)"
    by (simp add: a1 b1)
  moreover have "s_MuonVEM a' = s_MuonVEM a +
       (\<Sum>i\<leftarrow>filter (spec_selected sg) (j # js). TotalVEM sg ! i / TotalPE sg ! i * MuonPE sg ! i)"
    by (simp add: a2 b2)
  moreover have "s_TimeDelay a' = s_TimeDelay a +
       (\<Sum>i\<leftarrow>filter (\<lambda>i. spec_selected sg i \<and> spec_in_band sg i) (j # js). \<bar>TimeDelay sg ! i\<bar>)"
    by (simp add: a3 b3)
  moreover have "s_Q a' = s_Q a +
       (\<Sum>i\<leftarrow>filter (\<lambda>i. spec_selected sg i \<and> spec_in_band sg i) (j # js). TotalVEM sg ! i)"
    by (simp add: a4 b4)
  ultimately show ?case by blast
qed

lemma tank_body400_step:
  assumes "readable400 sg" and "i < length (Tank sg)"
  shows "\<exists>b. tank_body400 sg i a = Inr b \<and>
     s4_nMuon b = s4_nMuon a + (if strictly_selected sg i then nMuons sg ! i else 0) \<and>
     s4_MuonVEM b = s4_MuonVEM a +
       (if strictly_selected sg i then TotalVEM sg ! i / TotalPE sg ! i * MuonPE sg ! i else 0) \<and>
     s4_Q400 b = s4_Q400 a +
       (if strictly_selected sg i \<and> spec_in_band sg i then TotalVEM sg ! i else 0)"
  using assms
  by (auto simp: tank_body400_def readable400_def strictly_selected_def spec_in_band_def
      getitem_in_range and_then_Inr truediv_nonzero Let_def)

lemma tank_loop400_sums:
  assumes "readable400 sg" and "\<forall>i\<in>set js. i < length (Tank sg)"
  shows "\<exists>a'. for_in js (tank_body400 sg) a = Inr a' \<and>
     s4_nMuon a' = s4_nMuon a + (\<Sum>i\<leftarrow>filter (strictly_selected sg) js. nMuons sg ! i) \<and>
     s4_MuonVEM a' = s4_MuonVEM a +
       (\<Sum>i\<leftarrow>filter (strictly_selected sg) js. TotalVEM sg ! i / TotalPE sg ! i * MuonPE sg ! i) \<and>
     s4_Q400 a' = s4_Q400 a +
       (\<Sum>i\<leftarrow>filter (\<lambda>i. strictly_selected sg i \<and> spec_in_band sg i) js. TotalVEM sg ! i)"
  using assms(2)
proof (induction js arbitrary: a)
  case Nil
  then show ?case by simp
next
  case (Cons j js)
  have j: "j < length (Tank sg)" and rest: "\<forall>i\<in>set js. i < length (Tank sg)"
    using Cons.prems by simp_all
  from tank_body400_step [OF assms(1) j, of a] obtain b where
    b: "tank_body400 sg j a = Inr b"
    and b1: "s4_nMuon b = s4_nMuon a + (if strictly_selected sg j then nMuons sg ! j else 0)"
    and b2: "s4_MuonVEM b = s4_MuonVEM a +
       (if strictly_selected sg j then TotalVEM sg ! j / TotalPE sg ! j * MuonPE sg ! j else 0)"
    and b4: "s4_Q400 b = s4_Q400 a +
       (if strictly_selected sg j \<and> spec_in_band sg j then TotalVEM sg ! j else 0)"
    by blast
  from Cons.IH [OF rest, of b] obtain a' where
    a: "for_in js (tank_body400 sg) b = Inr a'"
    and a1: "s4_nMuon a' = s4_nMuon b + (\<Sum>i\<leftarrow>filter (strictly_selected sg) js. nMuons sg ! i)"
    and a2: "s4_MuonVEM a' = s4_MuonVEM b +
       (\<Sum>i\<leftarrow>filter (strictly_selected sg) js. TotalVEM sg ! i / TotalPE sg ! i * MuonPE sg ! i)"
    and a4: "s4_Q400 a' = s4_Q400 b +
       (\<Sum>i\<leftarrow>filter (\<lambda>i. strictly_selected sg i \<and> spec_in_band sg i) js. TotalVEM sg ! i)"
    by blast
  have "for_in (j # js) (tank_body400 sg) a = Inr a'"
    by (simp add: b a and_then_Inr)
  moreover have "s4_nMuon a' = s4_nMuon a + (\<Sum>i\<leftarrow>filter (strictly_selected sg) (j # js). nMuons sg ! i)"
    by (simp add: a1 b1)
  moreover have "s4_MuonVEM a' = s4_MuonVEM a +
       (\<Sum>i\<leftarrow>filter (strictly_selected sg) (j # js). TotalVEM sg ! i / TotalPE sg ! i * MuonPE sg ! i)"
    by (simp add: a2 b2)
  moreover have "s4_Q400 a' = s4_Q400 a +
       (\<Sum>i\<leftarrow>filter (\<lambda>i. strictly_selected sg i \<and> spec_in_band sg i) (j # js). TotalVEM sg ! i)"
    by (simp add: a4 b4)
  ultimately show ?case by blast
qed

lemma tank_body_error: "tank_body sg i a = Inl e \<Longrightarrow> e = IndexError"
  by (auto simp: tank_body_def and_then_def getitem_def truediv_def Let_def
      split: sum.splits if_splits)

lemma tank_body400_error: "tank_body400 sg i a = Inl e \<Longrightarrow> e = IndexError"
  by (auto simp: tank_body400_def and_then_def getitem_def truediv_def Let_def
      split: sum.splits if_splits)

lemma tank_body_no_LatDist:
  "length (LatDist sg) \<le> i \<Longrightarrow> tank_body sg i a = Inl IndexError"
  by (simp add: tank_body_def getitem_def and_then_Inl)

lemma tank_body400_no_LatDist:
  "length (LatDist sg) \<le> i \<Longrightarrow> tank_body400 sg i a = Inl IndexError"
  by (simp add: tank_body400_def getitem_def and_then_Inl)

section \<open>The rows of one shower\<close>

lemma readable_imp_readable400: "readable sg \<Longrightarrow> readable400 sg"
  by (simp add: readable_def readable400_def)

lemma shower_row_readable:
  assumes "readable (Signals sh)"
  shows "\<exists>r. shower_row sh = Inr r \<and>
     row_Run r = Run sh \<and> row_Energy r = Energy (Reconstruction sh) \<and>
     row_Zen r = zen (Reconstruction sh) \<and> row_Type r = Type (Primary sh) \<and>
     row_nMuons r =
       (\<Sum>i\<leftarrow>filter (spec_selected (Signals sh)) [0 ..< length (Tank (Signals sh))].
          nMuons (Signals sh) ! i) \<and>
     row_MuonVEM r =
       (\<Sum>i\<leftarrow>filter (spec_selected (Signals sh)) [0 ..< length (Tank (Signals sh))].
          TotalVEM (Signals sh) ! i / TotalPE (Signals sh) ! i * MuonPE (Signals sh) ! i) \<and>
     row_TimeDelay r =
       (\<Sum>i\<leftarrow>filter (\<lambda>i. spec_selected (Signals sh) i \<and> spec_in_band (Signals sh) i)
          [0 ..< length (Tank (Signals sh))]. \<bar>TimeDelay (Signals sh) ! i\<bar>) \<and>
     row_Q r =
       (\<Sum>i\<leftarrow>filter (\<lambda>i. spec_selected (Signals sh) i \<and> spec_in_band (Signals sh) i)
          [0 ..< length (Tank (Signals sh))]. TotalVEM (Signals sh) ! i)"
proof -
  have "\<forall>i\<in>set [0 ..< length (Tank (Signals sh))]. i < length (Tank (Signals sh))"
    by simp
  from tank_loop_sums [OF assms this,
      of "\<lparr>s_TimeDelay = 0, s_Q = 0, s_MuonVEM = 0, s_nMuons = 0\<rparr>"]
  show ?thesis
    unfolding shower_row_def by (auto simp: and_then_Inr)
qed

lemma process_shower_readable:
  assumes "readable400 (Signals sh)"
  shows "\<exists>r. process_shower sh st = Inr (st\<lparr>NNdata400 := NNdata400 st @ [r]\<rparr>) \<and>
     r4_E_proton r = E_Proton (Reconstruction sh) \<and>
     r4_E_iron r = E_Iron (Reconstruction sh) \<and>
     r4_Zen r = zen (Reconstruction sh) \<and> r4_Type r = Type (Primary sh) \<and>
     r4_nMuon r =
       (\<Sum>i\<leftarrow>filter (strictly_selected (Signals sh)) [0 ..< length (Tank (Signals sh))].
          nMuons (Signals sh) ! i) \<and>
     r4_MuonVEM r =
       (\<Sum>i\<leftarrow>filter (strictly_selected (Signals sh)) [0 ..< length (Tank (Signals sh))].
          TotalVEM (Signals sh) ! i / TotalPE (Signals sh) ! i * MuonPE (Signals sh) ! i) \<and>
     r4_Q400 r =
       (\<Sum>i\<leftarrow>filter (\<lambda>i. strictly_selected (Signals sh) i \<and> spec_in_band (Signals sh) i)
          [0 ..< length (Tank (Signals sh))]. TotalVEM (Signals sh) ! i)"
proof -
  have "\<forall>i\<in>set [0 ..< length (Tank (Signals sh))]. i < length (Tank (Signals sh))"
    by simp
  from tank_loop400_sums [OF assms this,
      of "\<lparr>s4_Q400 = 0, s4_MuonVEM = 0, s4_nMuon = 0\<rparr>"]
  show ?thesis
    unfolding process_shower_def by (auto simp: and_then_Inr)
qed

lemma shower_row_error: "shower_row sh = Inl e \<Longrightarrow> e = IndexError"
  unfolding shower_row_def and_then_eq_Inl
  by (auto dest: for_in_error [rotated] tank_body_error)

lemma process_shower_error: "process_shower sh st = Inl e \<Longrightarrow> e = IndexError"
  unfolding process_shower_def and_then_eq_Inl
  by (auto dest: for_in_error [rotated] tank_body400_error)

lemma shower_row_short_LatDist:
  assumes "length (LatDist (Signals sh)) < length (Tank (Signals sh))"
  shows "shower_row sh = Inl IndexError"
proof -
  have "length (LatDist (Signals sh)) \<in> set [0 ..< length (Tank (Signals sh))]"
    using assms by simp
  then have "for_in [0 ..< length (Tank (Signals sh))] (tank_body (Signals sh)) a = Inl IndexError"
    for a
    by (rule for_in_fails) (simp_all add: tank_body_no_LatDist tank_body_error)
  then show ?thesis by (simp add: shower_row_def and_then_Inl)
qed

lemma process_shower_short_LatDist:
  assumes "length (LatDist (Signals sh)) < length (Tank (Signals sh))"
  shows "process_shower sh st = Inl IndexError"
proof -
  have "length (LatDist (Signals sh)) \<in> set [0 ..< length (Tank (Signals sh))]"
    using assms by simp
  then have "for_in [0 ..< length (Tank (Signals sh))] (tank_body400 (Signals sh)) a = Inl IndexError"
    for a
    by (rule for_in_fails) (simp_all add: tank_body400_no_LatDist tank_body400_error)
  then show ?thesis by (simp add: process_shower_def and_then_Inl)
qed

lemma process_showers_iff:
  "process_showers showers = Inr rows \<longleftrightarrow> map shower_row showers = map Inr rows"
  unfolding process_showers_def by (simp add: for_in_collect_iff)

lemma process_showers_error: "process_showers showers = Inl e \<Longrightarrow> e = IndexError"
  unfolding process_showers_def
  by (erule for_in_error [rotated]) (auto simp: and_then_eq_Inl dest: shower_row_error)

section \<open>The run aggregator\<close>

lemma run_list_fold:
  "fold (\<lambda>sh S. insert (row_Run sh) S) List S = row_Run ` set List \<union> S"
  by (induction List arbitrary: S) auto

lemma set_iter_set: "finite S \<Longrightarrow> set (set_iter S) = S"
  by (simp add: set_iter_def)

lemma set_iter_distinct: "distinct (set_iter S)"
  by (simp add: set_iter_def)

lemma set_iter_length: "length (set_iter S) = card S"
  by (simp add: set_iter_def)

lemma fold_add_shower:
  "t_nShowers (fold (add_shower run) List t) =
     t_nShowers t + real (length (filter (\<lambda>sh. row_Run sh = run) List))"
  "t_Energy_tot (fold (add_shower run) List t) =
     t_Energy_tot t + (\<Sum>sh\<leftarrow>filter (\<lambda>sh. row_Run sh = run) List. row_Energy sh)"
  "t_Zen_tot (fold (add_shower run) List t) =
     t_Zen_tot t + (\<Sum>sh\<leftarrow>filter (\<lambda>sh. row_Run sh = run) List. row_Zen sh)"
  "t_TimeDelay_tot (fold (add_shower run) List t) =
     t_TimeDelay_tot t + (\<Sum>sh\<leftarrow>filter (\<lambda>sh. row_Run sh = run) List. row_TimeDelay sh)"
  "t_Q_tot (fold (add_shower run) List t) =
     t_Q_tot t + (\<Sum>sh\<leftarrow>filter (\<lambda>sh. row_Run sh = run) List. row_Q sh)"
  "t_MuonVEM_tot (fold (add_shower run) List t) =
     t_MuonVEM_tot t + (\<Sum>sh\<leftarrow>filter (\<lambda>sh. row_Run sh = run) List. row_MuonVEM sh)"
  "t_nMuons_tot (fold (add_shower run) List t) =
     t_nMuons_tot t + (\<Sum>sh\<leftarrow>filter (\<lambda>sh. row_Run sh = run) List. row_nMuons sh)"
  by (induction List arbitrary: t; simp add: add_shower_def)+

lemma run_totals_fields:
  "t_nShowers (run_totals run List) = real (length (filter (\<lambda>sh. row_Run sh = run) List))"
  "t_Energy_tot (run_totals run List) = (\<Sum>sh\<leftarrow>filter (\<lambda>sh. row_Run sh = run) List. row_Energy sh)"
  "t_Zen_tot (run_totals run List) = (\<Sum>sh\<leftarrow>filter (\<lambda>sh. row_Run sh = run) List. row_Zen sh)"
  "t_TimeDelay_tot (run_totals run List) = (\<Sum>sh\<leftarrow>filter (\<lambda>sh. row_Run sh = run) List. row_TimeDelay sh)"
  "t_Q_tot (run_totals run List) = (\<Sum>sh\<leftarrow>filter (\<lambda>sh. row_Run sh = run) List. row_Q sh)"
  "t_MuonVEM_tot (run_totals run List) = (\<Sum>sh\<leftarrow>filter (\<lambda>sh. row_Run sh = run) List. row_MuonVEM sh)"
  "t_nMuons_tot (run_totals run List) = (\<Sum>sh\<leftarrow>filter (\<lambda>sh. row_Run sh = run) List. row_nMuons sh)"
  by (simp_all add: run_totals_def fold_add_shower)

lemma nShowers_positive:
  assumes "run \<in> row_Run ` set List"
  shows "1 \<le> t_nShowers (run_totals run List)"
proof -
  from assms have "filter (\<lambda>sh. row_Run sh = run) List \<noteq> []"
    by (auto simp: filter_empty_conv)
  then have "1 \<le> length (filter (\<lambda>sh. row_Run sh = run) List)"
    by (simp add: Suc_le_eq)
  then show ?thesis by (simp add: run_totals_fields)
qed

lemma avg_row_present:
  assumes "run \<in> row_Run ` set List"
  shows "avg_row List ty run =
     Inr \<lparr>row_Run = run,
          row_Energy = spec_mean row_Energy run List,
          row_Zen = spec_mean row_Zen run List,
          row_TimeDelay = spec_mean row_TimeDelay run List,
          row_Q = spec_mean row_Q run List,
          row_MuonVEM = spec_mean row_MuonVEM run List,
          row_nMuons = spec_mean row_nMuons run List,
          row_Type = ty\<rparr>"
proof -
  from nShowers_positive [OF assms] have "t_nShowers (run_totals run List) \<noteq> 0" by simp
  then show ?thesis
    by (simp add: avg_row_def Let_def truediv_nonzero and_then_Inr spec_mean_def
        run_totals_fields)
qed

lemma avg_runs_rows:
  "avg_runs List ty =
     Inr (map (\<lambda>run. \<lparr>row_Run = run,
                      row_Energy = spec_mean row_Energy run List,
                      row_Zen = spec_mean row_Zen run List,
                      row_TimeDelay = spec_mean row_TimeDelay run List,
                      row_Q = spec_mean row_Q run List,
                      row_MuonVEM = spec_mean row_MuonVEM run List,
                      row_nMuons = spec_mean row_nMuons run List,
                      row_Type = ty\<rparr>)
            (set_iter (row_Run ` set List)))"
proof -
  have "\<forall>run\<in>set (set_iter (row_Run ` set List)). run \<in> row_Run ` set List"
    by (simp add: set_iter_set)
  then show ?thesis
    by (simp add: avg_runs_def Let_def run_list_fold for_in_collect_iff avg_row_present)
qed

section \<open>Rounding to double precision\<close>

lemma binade_eq:
  assumes "2 powi k \<le> \<bar>x\<bar>" and "\<bar>x\<bar> < 2 powi (k + 1)"
  shows "binade x = k"
proof -
  have pos: "0 < \<bar>x\<bar>"
    using assms(1) zero_less_power_int [of "2::real" k] by linarith
  have "(2::real) powr real_of_int k = 2 powi k" "(2::real) powr (real_of_int k + 1) = 2 powi (k + 1)"
    using powr_real_of_int' [of "2::real" k] powr_real_of_int' [of "2::real" "k + 1"] by simp_all
  with assms show ?thesis
    unfolding binade_def by (simp add: floor_log_eq_powr_iff [OF pos])
qed

lemma double_round_at:
  assumes "2 powi k \<le> \<bar>x\<bar>" and "\<bar>x\<bar> < 2 powi (k + 1)"
  shows "double_round x = of_int (round_half_even (x / 2 powi (k - 52))) * 2 powi (k - 52)"
proof -
  have "0 < \<bar>x\<bar>"
    using assms(1) zero_less_power_int [of "2::real" k] by linarith
  then have "x \<noteq> 0"
    by simp
  then show ?thesis
    by (simp add: double_round_def binade_eq [OF assms])
qed

lemma double_round_scaled:
  fixes m :: nat
  assumes "2 ^ 52 \<le> \<bar>x\<bar> * 2 ^ m" and "\<bar>x\<bar> * 2 ^ m < 2 ^ 53"
  shows "double_round x = of_int (round_half_even (x * 2 ^ m)) / 2 ^ m"
proof -
  have p: "(2::real) powi (52 - int m) = 2 ^ 52 / 2 ^ m"
    "(2::real) powi (52 - int m + 1) = 2 ^ 53 / 2 ^ m"
    "(2::real) powi (52 - int m - 52) = 1 / 2 ^ m"
    by (simp_all add: power_int_diff power_int_add power_int_minus field_simps)
  have "2 powi (52 - int m) \<le> \<bar>x\<bar>" and "\<bar>x\<bar> < 2 powi (52 - int m + 1)"
    using assms unfolding p by (simp_all add: field_simps)
  from double_round_at [OF this] show ?thesis
    unfolding p by simp
qed

lemma round_half_even_ge_floor: "\<lfloor>y\<rfloor> \<le> round_half_even y"
  by (simp add: round_half_even_def Let_def)

lemma double_round_ge_1:
  assumes "1 \<le> x"
  shows "1 \<le> double_round x"
proof -
  define k where "k = binade x"
  have pos: "0 < \<bar>x\<bar>" and nz: "x \<noteq> 0" and ax: "\<bar>x\<bar> = x"
    using assms by simp_all
  have "0 \<le> log 2 \<bar>x\<bar>"
    using assms by simp
  then have k0: "0 \<le> k"
    unfolding k_def binade_def by simp
  have "2 powr real_of_int k \<le> \<bar>x\<bar>"
    using floor_log_eq_powr_iff [OF pos, of 2 k] by (simp add: k_def binade_def)
  then have kx: "2 powi k \<le> x"
    using powr_real_of_int' [of "2::real" k] ax by simp
  define u :: real where "u = 2 powi (k - 52)"
  have u: "0 < u" by (simp add: u_def)
  have ku: "2 powi k = 2 ^ 52 * u"
    by (simp add: u_def power_int_diff)
  have "of_int (2 ^ 52) \<le> x / u"
    using kx u by (simp add: ku field_simps)
  then have "2 ^ 52 \<le> \<lfloor>x / u\<rfloor>"
    by (simp only: le_floor_iff)
  with round_half_even_ge_floor [of "x / u"] have "2 ^ 52 \<le> round_half_even (x / u)"
    by linarith
  then have "2 ^ 52 \<le> (of_int (round_half_even (x / u)) :: real)"
    by (metis of_int_le_iff of_int_numeral of_int_power)
  then have "2 ^ 52 * u \<le> of_int (round_half_even (x / u)) * u"
    using u by simp
  moreover have "1 \<le> (2::real) powi k"
    using k0 by (simp add: one_le_power_int)
  moreover have "double_round x = of_int (round_half_even (x / u)) * u"
    using nz by (simp add: double_round_def u_def k_def)
  ultimately show ?thesis
    using ku by linarith
qed

lemma double_round_0: "double_round 0 = 0"
  by (simp add: double_round_def)

lemma double_round_1: "double_round 1 = 1"
  using double_round_scaled [of 1 52] by (simp add: round_half_even_def)

lemma double_round_small:
  "double_round 2 = 2" "double_round 3 = 3"
  using double_round_scaled [of 2 51] double_round_scaled [of 3 51]
  by (simp_all add: round_half_even_def)

lemma double_round_4: "double_round 4 = 4"
  using double_round_scaled [of 4 50] by (simp add: round_half_even_def)

lemma double_round_tenth:
  "double_round (1 / 10) = 3602879701896397 / 36028797018963968"
  "double_round (3602879701896397 / 36028797018963968) = 3602879701896397 / 36028797018963968"
  "double_round (3602879701896397 / 18014398509481984) = 3602879701896397 / 18014398509481984"
  "double_round (10808639105689191 / 36028797018963968) = 1351079888211149 / 4503599627370496"
  "double_round (1351079888211149 / 13510798882111488) = 7205759403792795 / 72057594037927936"
  using double_round_scaled [of "1 / 10" 56]
    double_round_scaled [of "3602879701896397 / 36028797018963968" 56]
    double_round_scaled [of "3602879701896397 / 18014398509481984" 55]
    double_round_scaled [of "10808639105689191 / 36028797018963968" 54]
    double_round_scaled [of "1351079888211149 / 13510798882111488" 56]
  by (simp_all add: round_half_even_def)

section \<open>The run aggregator in double precision\<close>

lemma fold_add_shower64:
  "t_nShowers (fold (add_shower64 run) List t) =
     fold (\<lambda>v acc. add64 acc v) (map (\<lambda>sh. 1) (filter (\<lambda>sh. row_Run sh = run) List)) (t_nShowers t)"
  "t_Energy_tot (fold (add_shower64 run) List t) =
     fold (\<lambda>v acc. add64 acc v) (map row_Energy (filter (\<lambda>sh. row_Run sh = run) List)) (t_Energy_tot t)"
  "t_Zen_tot (fold (add_shower64 run) List t) =
     fold (\<lambda>v acc. add64 acc v) (map row_Zen (filter (\<lambda>sh. row_Run sh = run) List)) (t_Zen_tot t)"
  "t_TimeDelay_tot (fold (add_shower64 run) List t) =
     fold (\<lambda>v acc. add64 acc v) (map row_TimeDelay (filter (\<lambda>sh. row_Run sh = run) List)) (t_TimeDelay_tot t)"
  "t_Q_tot (fold (add_shower64 run) List t) =
     fold (\<lambda>v acc. add64 acc v) (map row_Q (filter (\<lambda>sh. row_Run sh = run) List)) (t_Q_tot t)"
  "t_MuonVEM_tot (fold (add_shower64 run) List t) =
     fold (\<lambda>v acc. add64 acc v) (map row_MuonVEM (filter (\<lambda>sh. row_Run sh = run) List)) (t_MuonVEM_tot t)"
  "t_nMuons_tot (fold (add_shower64 run) List t) =
     fold (\<lambda>v acc. add64 acc v) (map row_nMuons (filter (\<lambda>sh. row_Run sh = run) List)) (t_nMuons_tot t)"
  by (induction List arbitrary: t; simp add: add_shower64_def)+

lemma run_totals64_fields:
  "t_nShowers (run_totals64 run List) = sum64 (map (\<lambda>sh. 1) (filter (\<lambda>sh. row_Run sh = run) List))"
  "t_Energy_tot (run_totals64 run List) = sum64 (map row_Energy (filter (\<lambda>sh. row_Run sh = run) List))"
  "t_Zen_tot (run_totals64 run List) = sum64 (map row_Zen (filter (\<lambda>sh. row_Run sh = run) List))"
  "t_TimeDelay_tot (run_totals64 run List) = sum64 (map row_TimeDelay (filter (\<lambda>sh. row_Run sh = run) List))"
  "t_Q_tot (run_totals64 run List) = sum64 (map row_Q (filter (\<lambda>sh. row_Run sh = run) List))"
  "t_MuonVEM_tot (run_totals64 run List) = sum64 (map row_MuonVEM (filter (\<lambda>sh. row_Run sh = run) List))"
  "t_nMuons_tot (run_totals64 run List) = sum64 (map row_nMuons (filter (\<lambda>sh. row_Run sh = run) List))"
  by (simp_all add: run_totals64_def sum64_def fold_add_shower64)

lemma count64_ge_1:
  assumes "xs \<noteq> []" and "0 \<le> c"
  shows "1 \<le> fold (\<lambda>v acc. add64 acc v) (map (\<lambda>sh. 1) xs) c"
  using assms
proof (induction xs arbitrary: c)
  case Nil
  then show ?case by simp
next
  case (Cons x xs)
  have step: "1 \<le> add64 c 1"
    unfolding add64_def using Cons.prems(2) by (intro double_round_ge_1) simp
  show ?case
  proof (cases "xs = []")
    case True
    with step show ?thesis by simp
  next
    case False
    from Cons.IH [OF False, of "add64 c 1"] step show ?thesis by simp
  qed
qed

lemma nShowers64_positive:
  assumes "run \<in> row_Run ` set List"
  shows "1 \<le> t_nShowers (run_totals64 run List)"
proof -
  from assms have "filter (\<lambda>sh. row_Run sh = run) List \<noteq> []"
    by (auto simp: filter_empty_conv)
  from count64_ge_1 [OF this, of 0] show ?thesis
    by (simp add: run_totals64_fields sum64_def)
qed

lemma avg_row64_present:
  assumes "run \<in> row_Run ` set List"
  shows "avg_row64 List ty run =
     Inr \<lparr>row_Run = run,
          row_Energy = spec_mean64 row_Energy run List,
          row_Zen = spec_mean64 row_Zen run List,
          row_TimeDelay = spec_mean64 row_TimeDelay run List,
          row_Q = spec_mean64 row_Q run List,
          row_MuonVEM = spec_mean64 row_MuonVEM run List,
          row_nMuons = spec_mean64 row_nMuons run List,
          row_Type = ty\<rparr>"
proof -
  from nShowers64_positive [OF assms] have "t_nShowers (run_totals64 run List) \<noteq> 0" by simp
  then show ?thesis
    by (simp add: avg_row64_def Let_def truediv64_def and_then_Inr spec_mean64_def
        run_totals64_fields)
qed

lemma avg_runs64_rows:
  "avg_runs64 List ty =
     Inr (map (\<lambda>run. \<lparr>row_Run = run,
                      row_Energy = spec_mean64 row_Energy run List,
                      row_Zen = spec_mean64 row_Zen run List,
                      row_TimeDelay = spec_mean64 row_TimeDelay run List,
                      row_Q = spec_mean64 row_Q run List,
                      row_MuonVEM = spec_mean64 row_MuonVEM run List,
                      row_nMuons = spec_mean64 row_nMuons run List,
                      row_Type = ty\<rparr>)
            (set_iter (row_Run ` set List)))"
proof -
  have "\<forall>run\<in>set (set_iter (row_Run ` set List)). run \<in> row_Run ` set List"
    by (simp add: set_iter_set)
  then show ?thesis
    by (simp add: avg_runs64_def Let_def run_list_fold for_in_collect_iff avg_row64_present)
qed

lemma spec_mean64_single:
  assumes "is_double (field x)"
  shows "spec_mean64 field (row_Run x) [x] = field x"
  using assms by (simp add: spec_mean64_def sum64_def add64_def double_round_1 is_double_def)

text \<open>The two versions return the same run numbers and labels, in the same order.\<close>

lemma avg_runs64_shape:
  "\<exists>out out64. avg_runs List ty = Inr out \<and> avg_runs64 List ty = Inr out64 \<and>
     map row_Run out64 = map row_Run out \<and> map row_Type out64 = map row_Type out"
  by (simp add: avg_runs_rows avg_runs64_rows comp_def)

section \<open>Claims about the feature extractor\<close>

text \<open>
  Claim C1, as amended. In \<^verbatim>\<open>process_showers\<close> a tank adds to the running sums
  exactly when its lateral distance is at least 400 and its photoelectron count is
  not zero; any other tank leaves all four sums as they were. In
  \<^verbatim>\<open>process_shower\<close> the comparison is strict: a tank adds to the three running
  sums exactly when its lateral distance is greater than 400 and its photoelectron
  count is not zero.
\<close>

theorem tank_included_iff_selected:
  assumes "readable sg" and "i < length (Tank sg)"
  shows "(spec_selected sg i \<longrightarrow>
            (\<exists>b. tank_body sg i a = Inr b \<and>
               s_nMuons b = s_nMuons a + nMuons sg ! i \<and>
               s_MuonVEM b = s_MuonVEM a + TotalVEM sg ! i / TotalPE sg ! i * MuonPE sg ! i)) \<and>
         (\<not> spec_selected sg i \<longrightarrow> tank_body sg i a = Inr a) \<and>
         (strictly_selected sg i \<longrightarrow>
            (\<exists>b. tank_body400 sg i a4 = Inr b \<and>
               s4_nMuon b = s4_nMuon a4 + nMuons sg ! i \<and>
               s4_MuonVEM b = s4_MuonVEM a4 + TotalVEM sg ! i / TotalPE sg ! i * MuonPE sg ! i)) \<and>
         (\<not> strictly_selected sg i \<longrightarrow> tank_body400 sg i a4 = Inr a4)"
proof (intro conjI impI)
  assume "spec_selected sg i"
  with tank_body_step [OF assms, of a]
  show "\<exists>b. tank_body sg i a = Inr b \<and>
               s_nMuons b = s_nMuons a + nMuons sg ! i \<and>
               s_MuonVEM b = s_MuonVEM a + TotalVEM sg ! i / TotalPE sg ! i * MuonPE sg ! i"
    by auto
next
  assume "\<not> spec_selected sg i"
  with assms show "tank_body sg i a = Inr a" by (simp add: tank_body_skip)
next
  assume "strictly_selected sg i"
  with tank_body400_step [OF readable_imp_readable400 [OF assms(1)] assms(2), of a4]
  show "\<exists>b. tank_body400 sg i a4 = Inr b \<and>
               s4_nMuon b = s4_nMuon a4 + nMuons sg ! i \<and>
               s4_MuonVEM b = s4_MuonVEM a4 + TotalVEM sg ! i / TotalPE sg ! i * MuonPE sg ! i"
    by auto
next
  assume "\<not> strictly_selected sg i"
  with assms show "tank_body400 sg i a4 = Inr a4"
    by (auto simp: tank_body400_def readable_def strictly_selected_def
        getitem_in_range and_then_Inr)
qed

theorem tank_included_iff_selected_witness:
  "readable (Signals example_on_cut) \<and> 0 < length (Tank (Signals example_on_cut)) \<and>
   spec_selected (Signals example_on_cut) 0 \<and>
   \<not> strictly_selected (Signals example_on_cut) 0 \<and>
   (\<exists>b. tank_body (Signals example_on_cut) 0
           \<lparr>s_TimeDelay = 0, s_Q = 0, s_MuonVEM = 0, s_nMuons = 0\<rparr> = Inr b \<and>
         s_nMuons b = 2 \<and> s_MuonVEM b = 1 / 2) \<and>
   tank_body400 (Signals example_on_cut) 0 \<lparr>s4_Q400 = 0, s4_MuonVEM = 0, s4_nMuon = 0\<rparr> =
     Inr \<lparr>s4_Q400 = 0, s4_MuonVEM = 0, s4_nMuon = 0\<rparr>"
proof -
  have r: "readable (Signals example_on_cut)"
    by (simp add: example_on_cut_def readable_def)
  have i: "0 < length (Tank (Signals example_on_cut))"
    by (simp add: example_on_cut_def)
  from tank_included_iff_selected [OF r i,
      of "\<lparr>s_TimeDelay = 0, s_Q = 0, s_MuonVEM = 0, s_nMuons = 0\<rparr>"
         "\<lparr>s4_Q400 = 0, s4_MuonVEM = 0, s4_nMuon = 0\<rparr>"] r i
  show ?thesis
    by (simp add: example_on_cut_def spec_selected_def strictly_selected_def)
qed

text \<open>
  Claim C1 as stated fails for \<^verbatim>\<open>process_shower\<close>: a tank at exactly 400 with
  ten photoelectrons meets the stated condition, and the row has zero sums.
\<close>

theorem cut_at_400_counterexample:
  "LatDist (Signals example_on_cut) ! 0 \<ge> 400 \<and> TotalPE (Signals example_on_cut) ! 0 \<noteq> 0 \<and>
   process_shower example_on_cut empty_state =
     Inr \<lparr>NNdata300 = [],
          NNdata400 = [\<lparr>r4_E_proton = 2, r4_E_iron = 3, r4_Zen = 0, r4_Q400 = 0,
                        r4_MuonVEM = 0, r4_nMuon = 0, r4_Type = ''PPlus''\<rparr>]\<rparr>"
  by (simp add: example_on_cut_def empty_state_def process_shower_def tank_body400_def
      getitem_def and_then_def upt_rec)

text \<open>
  Claim C2. The charge sum and the time delay sum of the row are the sums of
  \<open>total_VEM[i]\<close> and of \<open>abs(time_delay[i])\<close> over the selected tanks whose
  \<open>total_VEM\<close> lies in \<open>[0.6, 2.0]\<close>. A selected tank outside the band, such as
  one at 2.1, adds to the two muon sums and leaves the charge and time delay sums as
  they were.
\<close>

theorem band_sums_over_selected:
  "(readable (Signals sh) \<longrightarrow>
      (\<exists>r. shower_row sh = Inr r \<and>
         row_Q r =
           (\<Sum>i\<leftarrow>filter (\<lambda>i. spec_selected (Signals sh) i \<and> spec_in_band (Signals sh) i)
              [0 ..< length (Tank (Signals sh))]. TotalVEM (Signals sh) ! i) \<and>
         row_TimeDelay r =
           (\<Sum>i\<leftarrow>filter (\<lambda>i. spec_selected (Signals sh) i \<and> spec_in_band (Signals sh) i)
              [0 ..< length (Tank (Signals sh))]. \<bar>TimeDelay (Signals sh) ! i\<bar>))) \<and>
   (readable400 (Signals sh) \<longrightarrow>
      (\<exists>r. process_shower sh st = Inr (st\<lparr>NNdata400 := NNdata400 st @ [r]\<rparr>) \<and>
         r4_Q400 r =
           (\<Sum>i\<leftarrow>filter (\<lambda>i. strictly_selected (Signals sh) i \<and> spec_in_band (Signals sh) i)
              [0 ..< length (Tank (Signals sh))]. TotalVEM (Signals sh) ! i))) \<and>
   (readable sg \<and> i < length (Tank sg) \<and> spec_selected sg i \<and> \<not> spec_in_band sg i \<longrightarrow>
      (\<exists>b. tank_body sg i a = Inr b \<and>
         s_Q b = s_Q a \<and> s_TimeDelay b = s_TimeDelay a \<and>
         s_MuonVEM b = s_MuonVEM a + TotalVEM sg ! i / TotalPE sg ! i * MuonPE sg ! i \<and>
         s_nMuons b = s_nMuons a + nMuons sg ! i))"
proof (intro conjI impI)
  assume "readable (Signals sh)"
  from shower_row_readable [OF this] show "\<exists>r. shower_row sh = Inr r \<and>
         row_Q r =
           (\<Sum>i\<leftarrow>filter (\<lambda>i. spec_selected (Signals sh) i \<and> spec_in_band (Signals sh) i)
              [0 ..< length (Tank (Signals sh))]. TotalVEM (Signals sh) ! i) \<and>
         row_TimeDelay r =
           (\<Sum>i\<leftarrow>filter (\<lambda>i. spec_selected (Signals sh) i \<and> spec_in_band (Signals sh) i)
              [0 ..< length (Tank (Signals sh))]. \<bar>TimeDelay (Signals sh) ! i\<bar>)"
    by blast
next
  assume "readable400 (Signals sh)"
  from process_shower_readable [OF this, of st] show
    "\<exists>r. process_shower sh st = Inr (st\<lparr>NNdata400 := NNdata400 st @ [r]\<rparr>) \<and>
         r4_Q400 r =
           (\<Sum>i\<leftarrow>filter (\<lambda>i. strictly_selected (Signals sh) i \<and> spec_in_band (Signals sh) i)
              [0 ..< length (Tank (Signals sh))]. TotalVEM (Signals sh) ! i)"
    by blast
next
  assume h: "readable sg \<and> i < length (Tank sg) \<and> spec_selected sg i \<and> \<not> spec_in_band sg i"
  then have "tank_body sg i a =
     Inr (a\<lparr>s_nMuons := s_nMuons a + nMuons sg ! i,
            s_MuonVEM := s_MuonVEM a + TotalVEM sg ! i / TotalPE sg ! i * MuonPE sg ! i\<rparr>)"
    by (simp add: tank_body_out_of_band)
  then show "\<exists>b. tank_body sg i a = Inr b \<and>
         s_Q b = s_Q a \<and> s_TimeDelay b = s_TimeDelay a \<and>
         s_MuonVEM b = s_MuonVEM a + TotalVEM sg ! i / TotalPE sg ! i * MuonPE sg ! i \<and>
         s_nMuons b = s_nMuons a + nMuons sg ! i"
    by simp
qed

theorem band_sums_over_selected_witness:
  "readable (Signals example_shower) \<and> readable400 (Signals example_shower) \<and>
   (\<exists>r. shower_row example_shower = Inr r \<and> row_Q r = 1 \<and> row_TimeDelay r = 3) \<and>
   (\<exists>r. process_shower example_shower empty_state =
           Inr \<lparr>NNdata300 = [], NNdata400 = [r]\<rparr> \<and> r4_Q400 r = 1) \<and>
   TotalVEM (Signals example_above_band) ! 0 = 2.1 \<and>
   spec_selected (Signals example_above_band) 0 \<and>
   \<not> spec_in_band (Signals example_above_band) 0 \<and>
   (\<exists>b. tank_body (Signals example_above_band) 0
           \<lparr>s_TimeDelay = 0, s_Q = 0, s_MuonVEM = 0, s_nMuons = 0\<rparr> = Inr b \<and>
         s_Q b = 0 \<and> s_TimeDelay b = 0 \<and> s_MuonVEM b = 21 / 20 \<and> s_nMuons b = 2)"
  using band_sums_over_selected [of example_shower empty_state
      "Signals example_above_band" 0 "\<lparr>s_TimeDelay = 0, s_Q = 0, s_MuonVEM = 0, s_nMuons = 0\<rparr>"]
  by (simp add: example_shower_def example_above_band_def empty_state_def readable_def
      readable400_def spec_selected_def strictly_selected_def spec_in_band_def upt_rec)

text \<open>
  Claim C3. For a shower whose sequences are readable, the scaled muon sum of the row
  is the sum of \<open>total_VEM[i] / total_PE[i] * muon_PE[i]\<close> over the tanks that pass the
  distance and photoelectron cut, and the muon count sum is the sum of
  \<open>muon_count[i]\<close> over the same tanks; the band \<open>[0.6, 2.0]\<close> plays no part in
  either. This holds for \<^verbatim>\<open>process_showers\<close> and, with its own cut, for
  \<^verbatim>\<open>process_shower\<close>.
\<close>

theorem muon_sums_over_selected:
  "(readable (Signals sh) \<longrightarrow>
      (\<exists>r. shower_row sh = Inr r \<and>
         row_MuonVEM r =
           (\<Sum>i\<leftarrow>filter (spec_selected (Signals sh)) [0 ..< length (Tank (Signals sh))].
              TotalVEM (Signals sh) ! i / TotalPE (Signals sh) ! i * MuonPE (Signals sh) ! i) \<and>
         row_nMuons r =
           (\<Sum>i\<leftarrow>filter (spec_selected (Signals sh)) [0 ..< length (Tank (Signals sh))].
              nMuons (Signals sh) ! i))) \<and>
   (readable400 (Signals sh) \<longrightarrow>
      (\<exists>r. process_shower sh st = Inr (st\<lparr>NNdata400 := NNdata400 st @ [r]\<rparr>) \<and>
         r4_MuonVEM r =
           (\<Sum>i\<leftarrow>filter (strictly_selected (Signals sh)) [0 ..< length (Tank (Signals sh))].
              TotalVEM (Signals sh) ! i / TotalPE (Signals sh) ! i * MuonPE (Signals sh) ! i) \<and>
         r4_nMuon r =
           (\<Sum>i\<leftarrow>filter (strictly_selected (Signals sh)) [0 ..< length (Tank (Signals sh))].
              nMuons (Signals sh) ! i)))"
proof (intro conjI impI)
  assume "readable (Signals sh)"
  from shower_row_readable [OF this] show "\<exists>r. shower_row sh = Inr r \<and>
         row_MuonVEM r =
           (\<Sum>i\<leftarrow>filter (spec_selected (Signals sh)) [0 ..< length (Tank (Signals sh))].
              TotalVEM (Signals sh) ! i / TotalPE (Signals sh) ! i * MuonPE (Signals sh) ! i) \<and>
         row_nMuons r =
           (\<Sum>i\<leftarrow>filter (spec_selected (Signals sh)) [0 ..< length (Tank (Signals sh))].
              nMuons (Signals sh) ! i)"
    by blast
next
  assume "readable400 (Signals sh)"
  from process_shower_readable [OF this, of st] show
    "\<exists>r. process_shower sh st = Inr (st\<lparr>NNdata400 := NNdata400 st @ [r]\<rparr>) \<and>
         r4_MuonVEM r =
           (\<Sum>i\<leftarrow>filter (strictly_selected (Signals sh)) [0 ..< length (Tank (Signals sh))].
              TotalVEM (Signals sh) ! i / TotalPE (Signals sh) ! i * MuonPE (Signals sh) ! i) \<and>
         r4_nMuon r =
           (\<Sum>i\<leftarrow>filter (strictly_selected (Signals sh)) [0 ..< length (Tank (Signals sh))].
              nMuons (Signals sh) ! i)"
    by blast
qed

theorem muon_sums_over_selected_witness:
  "readable (Signals example_shower) \<and> readable400 (Signals example_shower) \<and>
   (\<exists>r. shower_row example_shower = Inr r \<and> row_MuonVEM r = 1 / 2 \<and> row_nMuons r = 2) \<and>
   (\<exists>r. process_shower example_shower \<lparr>NNdata300 = [], NNdata400 = []\<rparr> =
           Inr \<lparr>NNdata300 = [], NNdata400 = [r]\<rparr> \<and>
         r4_MuonVEM r = 1 / 2 \<and> r4_nMuon r = 2)"
  using muon_sums_over_selected [of example_shower "\<lparr>NNdata300 = [], NNdata400 = []\<rparr>"]
  by (simp add: example_shower_def readable_def readable400_def spec_selected_def
      strictly_selected_def upt_rec)

text \<open>
  Claim C7, as amended. Mismatched lengths raise no error of their own. Extraction
  returns a row whenever every sequence it reads has an entry for each tank, raises
  \<^verbatim>\<open>IndexError\<close> when \<^verbatim>\<open>LatDist\<close> is shorter than \<^verbatim>\<open>Tank\<close>, and raises
  nothing but \<^verbatim>\<open>IndexError\<close>.
\<close>

theorem extraction_raises_only_index_error:
  "(readable (Signals sh) \<longrightarrow> (\<exists>r. shower_row sh = Inr r)) \<and>
   (readable400 (Signals sh) \<longrightarrow> (\<exists>st'. process_shower sh st = Inr st')) \<and>
   (length (LatDist (Signals sh)) < length (Tank (Signals sh)) \<longrightarrow>
      shower_row sh = Inl IndexError \<and> process_shower sh st = Inl IndexError) \<and>
   (\<forall>e. shower_row sh = Inl e \<or> process_shower sh st = Inl e \<longrightarrow> e = IndexError)"
proof (intro conjI impI allI)
  assume "readable (Signals sh)"
  from shower_row_readable [OF this] show "\<exists>r. shower_row sh = Inr r" by blast
next
  assume "readable400 (Signals sh)"
  from process_shower_readable [OF this, of st] show "\<exists>st'. process_shower sh st = Inr st'"
    by blast
next
  assume "length (LatDist (Signals sh)) < length (Tank (Signals sh))"
  then show "shower_row sh = Inl IndexError" by (rule shower_row_short_LatDist)
next
  assume "length (LatDist (Signals sh)) < length (Tank (Signals sh))"
  then show "process_shower sh st = Inl IndexError" by (rule process_shower_short_LatDist)
next
  fix e
  assume "shower_row sh = Inl e \<or> process_shower sh st = Inl e"
  then show "e = IndexError"
    by (auto dest: shower_row_error process_shower_error)
qed

theorem extraction_raises_only_index_error_witness:
  "readable (Signals example_shower) \<and> readable400 (Signals example_shower) \<and>
   (\<exists>r. shower_row example_shower = Inr r) \<and>
   (\<exists>st'. process_shower example_shower empty_state = Inr st') \<and>
   length (LatDist (Signals example_no_LatDist)) < length (Tank (Signals example_no_LatDist)) \<and>
   shower_row example_no_LatDist = Inl IndexError \<and>
   process_shower example_no_LatDist empty_state = Inl IndexError"
proof -
  have r: "readable (Signals example_shower)" "readable400 (Signals example_shower)"
    by (simp_all add: example_shower_def readable_def readable400_def)
  have s: "length (LatDist (Signals example_no_LatDist)) < length (Tank (Signals example_no_LatDist))"
    by (simp add: example_no_LatDist_def)
  from extraction_raises_only_index_error [of example_shower empty_state]
    extraction_raises_only_index_error [of example_no_LatDist empty_state] r s
  show ?thesis by simp
qed

text \<open>
  Claim C7 as stated fails: the sequences of this shower have the lengths 2, 2, 1, 1,
  1, 1 and 3, and \<^verbatim>\<open>process_showers\<close> returns its row.
\<close>

theorem mismatched_lengths_counterexample:
  "length (TotalPE (Signals example_mismatched)) \<noteq> length (Tank (Signals example_mismatched)) \<and>
   length (TimeDelay (Signals example_mismatched)) \<noteq> length (Tank (Signals example_mismatched)) \<and>
   process_showers [example_mismatched] =
     Inr [\<lparr>row_Run = 7, row_Energy = 1, row_Zen = 0, row_TimeDelay = 3, row_Q = 1,
           row_MuonVEM = 1 / 2, row_nMuons = 2, row_Type = ''PPlus''\<rparr>]"
  by (simp add: example_mismatched_def process_showers_def shower_row_def tank_body_def
      getitem_def truediv_def and_then_def cut_dist_def upt_rec)

text \<open>
  Claim C9, as amended. \<^verbatim>\<open>process_shower\<close> returns no row: whenever it finishes,
  the module state afterwards is the state before with exactly one row appended to
  \<^verbatim>\<open>NNdata400\<close>; the rows already there and \<^verbatim>\<open>NNdata300\<close> are unchanged. It
  finishes whenever the sequences it reads are readable.
\<close>

theorem process_shower_appends_one_row:
  "(\<forall>st'. process_shower sh st = Inr st' \<longrightarrow>
      (\<exists>r. st' = st\<lparr>NNdata400 := NNdata400 st @ [r]\<rparr>) \<and>
      NNdata300 st' = NNdata300 st \<and>
      length (NNdata400 st') = Suc (length (NNdata400 st)) \<and>
      butlast (NNdata400 st') = NNdata400 st) \<and>
   (readable400 (Signals sh) \<longrightarrow> (\<exists>st'. process_shower sh st = Inr st'))"
proof (intro conjI allI impI)
  fix st'
  assume "process_shower sh st = Inr st'"
  then obtain r where r: "st' = st\<lparr>NNdata400 := NNdata400 st @ [r]\<rparr>"
    unfolding process_shower_def and_then_eq_Inr by auto
  then show "\<exists>r. st' = st\<lparr>NNdata400 := NNdata400 st @ [r]\<rparr>" by blast
  from r show "NNdata300 st' = NNdata300 st" by simp
  from r show "length (NNdata400 st') = Suc (length (NNdata400 st))" by simp
  from r show "butlast (NNdata400 st') = NNdata400 st" by simp
next
  assume "readable400 (Signals sh)"
  from process_shower_readable [OF this, of st]
  show "\<exists>st'. process_shower sh st = Inr st'" by blast
qed

theorem process_shower_appends_one_row_witness:
  "readable400 (Signals example_shower) \<and>
   (\<exists>st'. process_shower example_shower empty_state = Inr st' \<and>
      NNdata300 st' = [] \<and> length (NNdata400 st') = 1)"
proof -
  have r: "readable400 (Signals example_shower)"
    by (simp add: example_shower_def readable400_def)
  from process_shower_appends_one_row [of example_shower empty_state] r
  obtain st' where st': "process_shower example_shower empty_state = Inr st'"
    by blast
  with process_shower_appends_one_row [of example_shower empty_state]
  have "NNdata300 st' = NNdata300 empty_state"
    and "length (NNdata400 st') = Suc (length (NNdata400 empty_state))"
    by auto
  then have "NNdata300 st' = []" and "length (NNdata400 st') = 1"
    by (simp_all add: empty_state_def)
  with r st' show ?thesis by blast
qed

text \<open>
  Claim C9 as stated fails for \<^verbatim>\<open>process_shower\<close>: started with both module-level
  lists empty, it leaves a row in \<^verbatim>\<open>NNdata400\<close>.
\<close>

theorem process_shower_side_effect_counterexample:
  "process_shower example_shower \<lparr>NNdata300 = [], NNdata400 = []\<rparr> =
     Inr \<lparr>NNdata300 = [],
          NNdata400 = [\<lparr>r4_E_proton = 2, r4_E_iron = 3, r4_Zen = 0, r4_Q400 = 1,
                        r4_MuonVEM = 1 / 2, r4_nMuon = 2, r4_Type = ''PPlus''\<rparr>]\<rparr>"
  by (simp add: example_shower_def process_shower_def tank_body400_def
      getitem_def truediv_def and_then_def upt_rec)

text \<open>
  Claim C10. Whenever \<^verbatim>\<open>process_showers\<close> returns, it returns as many rows as it
  was given showers, and the row at each position is the row computed from the shower
  at that position; and it does return whenever the sequences of every shower are
  readable.
\<close>

theorem process_showers_one_row_per_shower:
  "(\<forall>rows. process_showers showers = Inr rows \<longrightarrow>
      length rows = length showers \<and>
      (\<forall>i<length showers. shower_row (showers ! i) = Inr (rows ! i))) \<and>
   ((\<forall>sh\<in>set showers. readable (Signals sh)) \<longrightarrow>
      (\<exists>rows. process_showers showers = Inr rows))"
proof (intro conjI allI impI)
  fix rows
  assume "process_showers showers = Inr rows"
  then have eq: "map shower_row showers = map Inr rows"
    by (simp add: process_showers_iff)
  then show len: "length rows = length showers"
    by (metis length_map)
  fix i
  assume "i < length showers"
  with eq len show "shower_row (showers ! i) = Inr (rows ! i)"
    by (metis nth_map)
next
  assume "\<forall>sh\<in>set showers. readable (Signals sh)"
  then have "\<forall>sh\<in>set showers. \<exists>r. shower_row sh = Inr r"
    using shower_row_readable by blast
  then have "map shower_row showers = map Inr (map (\<lambda>sh. projr (shower_row sh)) showers)"
    by auto
  then show "\<exists>rows. process_showers showers = Inr rows"
    unfolding process_showers_iff by blast
qed

theorem process_showers_one_row_per_shower_witness:
  "readable (Signals example_above_band) \<and> readable (Signals example_shower) \<and>
   (\<exists>rows. process_showers [example_above_band, example_shower] = Inr rows \<and>
      length rows = 2 \<and>
      shower_row example_above_band = Inr (rows ! 0) \<and>
      shower_row example_shower = Inr (rows ! 1))"
proof -
  have r: "\<forall>sh\<in>set [example_above_band, example_shower]. readable (Signals sh)"
    by (simp add: example_above_band_def example_shower_def readable_def)
  from process_showers_one_row_per_shower [of "[example_above_band, example_shower]"] r
  obtain rows where rows: "process_showers [example_above_band, example_shower] = Inr rows"
    by blast
  with process_showers_one_row_per_shower [of "[example_above_band, example_shower]"]
  have "length rows = 2"
    and "\<forall>i<2. shower_row ([example_above_band, example_shower] ! i) = Inr (rows ! i)"
    by auto
  then have "shower_row example_above_band = Inr (rows ! 0)"
    and "shower_row example_shower = Inr (rows ! 1)"
    by (auto simp: numeral_2_eq_2 less_Suc_eq)
  with r rows \<open>length rows = 2\<close> show ?thesis by auto
qed

section \<open>Claims about the run aggregator\<close>

text \<open>
  Claim C4, as amended. \<^verbatim>\<open>avg_runs\<close> returns rows for exactly the run numbers of
  its input, and each of the six numeric fields of a returned row is the mean of that
  field over the input rows with the same run number as double precision computes it:
  the rounded quotient of the accumulated sum by the accumulated count. \<open>N > 0\<close>
  copies of one row give exactly one row, with the run number of the copies and the
  label given. For \<open>N = 1\<close> its numeric fields are those of the original row; for
  larger \<open>N\<close> nothing more than the computed mean is claimed.
\<close>

theorem avg_runs64_means:
  "(\<exists>out. avg_runs64 List ty = Inr out \<and>
      row_Run ` set out = row_Run ` set List \<and>
      (\<forall>r\<in>set out.
         row_Energy r = spec_mean64 row_Energy (row_Run r) List \<and>
         row_Zen r = spec_mean64 row_Zen (row_Run r) List \<and>
         row_TimeDelay r = spec_mean64 row_TimeDelay (row_Run r) List \<and>
         row_Q r = spec_mean64 row_Q (row_Run r) List \<and>
         row_MuonVEM r = spec_mean64 row_MuonVEM (row_Run r) List \<and>
         row_nMuons r = spec_mean64 row_nMuons (row_Run r) List)) \<and>
   (0 < N \<longrightarrow>
      (\<exists>r. avg_runs64 (replicate N x) ty = Inr [r] \<and>
         row_Run r = row_Run x \<and> row_Type r = ty)) \<and>
   (is_double (row_Energy x) \<and> is_double (row_Zen x) \<and> is_double (row_TimeDelay x) \<and>
    is_double (row_Q x) \<and> is_double (row_MuonVEM x) \<and> is_double (row_nMuons x) \<longrightarrow>
      avg_runs64 [x] ty = Inr [x\<lparr>row_Type := ty\<rparr>])"
proof (intro conjI impI)
  have "row_Run ` (\<lambda>run. \<lparr>row_Run = run,
                      row_Energy = spec_mean64 row_Energy run List,
                      row_Zen = spec_mean64 row_Zen run List,
                      row_TimeDelay = spec_mean64 row_TimeDelay run List,
                      row_Q = spec_mean64 row_Q run List,
                      row_MuonVEM = spec_mean64 row_MuonVEM run List,
                      row_nMuons = spec_mean64 row_nMuons run List,
                      row_Type = ty\<rparr>) ` set (set_iter (row_Run ` set List)) =
        row_Run ` set List"
    by (simp add: image_image set_iter_set)
  then show "\<exists>out. avg_runs64 List ty = Inr out \<and>
      row_Run ` set out = row_Run ` set List \<and>
      (\<forall>r\<in>set out.
         row_Energy r = spec_mean64 row_Energy (row_Run r) List \<and>
         row_Zen r = spec_mean64 row_Zen (row_Run r) List \<and>
         row_TimeDelay r = spec_mean64 row_TimeDelay (row_Run r) List \<and>
         row_Q r = spec_mean64 row_Q (row_Run r) List \<and>
         row_MuonVEM r = spec_mean64 row_MuonVEM (row_Run r) List \<and>
         row_nMuons r = spec_mean64 row_nMuons (row_Run r) List)"
    by (simp add: avg_runs64_rows)
next
  assume "0 < N"
  then have "row_Run ` set (replicate N x) = {row_Run x}" by auto
  then have "set_iter (row_Run ` set (replicate N x)) = [row_Run x]"
    by (simp add: set_iter_def)
  then show "\<exists>r. avg_runs64 (replicate N x) ty = Inr [r] \<and>
         row_Run r = row_Run x \<and> row_Type r = ty"
    by (simp add: avg_runs64_rows)
next
  assume "is_double (row_Energy x) \<and> is_double (row_Zen x) \<and> is_double (row_TimeDelay x) \<and>
    is_double (row_Q x) \<and> is_double (row_MuonVEM x) \<and> is_double (row_nMuons x)"
  moreover have "set_iter (row_Run ` set [x]) = [row_Run x]"
    by (simp add: set_iter_def)
  ultimately show "avg_runs64 [x] ty = Inr [x\<lparr>row_Type := ty\<rparr>]"
    by (simp add: avg_runs64_rows spec_mean64_single)
qed

theorem avg_runs64_means_witness:
  "(\<exists>out. avg_runs64 example_rows ''PPlus'' = Inr out \<and> row_Run ` set out = {5} \<and>
      (\<forall>r\<in>set out. row_Q r = 2 \<and> row_Energy r = 0)) \<and>
   (0 :: nat) < 3 \<and>
   (\<exists>r. avg_runs64 (replicate 3 example_tenth) ''Fe56Nucleus'' = Inr [r] \<and>
      row_Run r = 5 \<and> row_Type r = ''Fe56Nucleus'') \<and>
   is_double (row_Energy example_tenth) \<and> is_double (row_Zen example_tenth) \<and>
   avg_runs64 [example_tenth] ''Fe56Nucleus'' =
     Inr [\<lparr>row_Run = 5, row_Energy = 3602879701896397 / 36028797018963968, row_Zen = 0,
           row_TimeDelay = 0, row_Q = 0, row_MuonVEM = 0, row_nMuons = 0,
           row_Type = ''Fe56Nucleus''\<rparr>]"
proof -
  have d: "is_double (row_Energy example_tenth)" "is_double (row_Zen example_tenth)"
    "is_double (row_TimeDelay example_tenth)" "is_double (row_Q example_tenth)"
    "is_double (row_MuonVEM example_tenth)" "is_double (row_nMuons example_tenth)"
    by (simp_all add: is_double_def example_tenth_def double_round_tenth double_round_0)
  have five: "row_Run ` set example_rows = {5}"
    by (simp add: example_rows_def)
  from avg_runs64_means [of example_rows "''PPlus''" 0 example_tenth]
  obtain out where out: "avg_runs64 example_rows ''PPlus'' = Inr out"
    and runs: "row_Run ` set out = row_Run ` set example_rows"
    and means: "\<forall>r\<in>set out. row_Q r = spec_mean64 row_Q (row_Run r) example_rows \<and>
                  row_Energy r = spec_mean64 row_Energy (row_Run r) example_rows"
    by auto
  from runs five have "\<forall>r\<in>set out. row_Run r = 5" by auto
  moreover have "spec_mean64 row_Q 5 example_rows = 2" "spec_mean64 row_Energy 5 example_rows = 0"
    by (simp_all add: spec_mean64_def sum64_def add64_def example_rows_def
        double_round_0 double_round_1 double_round_small double_round_4)
  ultimately have "\<forall>r\<in>set out. row_Q r = 2 \<and> row_Energy r = 0"
    using means by simp
  with out runs five have
    "\<exists>out. avg_runs64 example_rows ''PPlus'' = Inr out \<and> row_Run ` set out = {5} \<and>
       (\<forall>r\<in>set out. row_Q r = 2 \<and> row_Energy r = 0)"
    by auto
  moreover from avg_runs64_means [of "[]" "''Fe56Nucleus''" 3 example_tenth] d
  have "\<exists>r. avg_runs64 (replicate 3 example_tenth) ''Fe56Nucleus'' = Inr [r] \<and>
      row_Run r = 5 \<and> row_Type r = ''Fe56Nucleus''"
    and "avg_runs64 [example_tenth] ''Fe56Nucleus'' =
     Inr [\<lparr>row_Run = 5, row_Energy = 3602879701896397 / 36028797018963968, row_Zen = 0,
           row_TimeDelay = 0, row_Q = 0, row_MuonVEM = 0, row_nMuons = 0,
           row_Type = ''Fe56Nucleus''\<rparr>]"
    by (simp_all add: example_tenth_def)
  ultimately show ?thesis using d by simp
qed

text \<open>
  Claim C4 as stated fails: the mean of three copies of a row with energy 0.1 has the
  energy 0.10000000000000002, the next double above. The sum of the three is rounded
  up to 0.30000000000000004, and a third of that is nearer to the next double than
  to the original.
\<close>

theorem three_tenths_counterexample:
  "row_Energy example_tenth = double_round (1 / 10) \<and>
   avg_runs64 (replicate 3 example_tenth) ''PPlus'' =
     Inr [example_tenth\<lparr>row_Energy := 7205759403792795 / 72057594037927936\<rparr>] \<and>
   (7205759403792795 / 72057594037927936 :: real) \<noteq> row_Energy example_tenth"
proof -
  have "set_iter (row_Run ` set (replicate 3 example_tenth)) = [5]"
    by (simp add: set_iter_def example_tenth_def)
  moreover have "spec_mean64 row_Energy 5 (replicate 3 example_tenth) =
      7205759403792795 / 72057594037927936"
    by (simp add: spec_mean64_def sum64_def add64_def example_tenth_def numeral_3_eq_3
        double_round_tenth double_round_1 double_round_small)
  moreover have "spec_mean64 f 5 (replicate 3 example_tenth) = 0"
    if "f example_tenth = 0" for f
    using that
    by (simp add: spec_mean64_def sum64_def add64_def example_tenth_def numeral_3_eq_3
        double_round_0 double_round_1 double_round_small)
  ultimately have "avg_runs64 (replicate 3 example_tenth) ''PPlus'' =
     Inr [example_tenth\<lparr>row_Energy := 7205759403792795 / 72057594037927936\<rparr>]"
    by (simp add: avg_runs64_rows example_tenth_def)
  then show ?thesis
    by (simp add: example_tenth_def double_round_tenth)
qed

text \<open>
  Claim C5. \<^verbatim>\<open>avg_runs\<close> returns one row per distinct run number of its input: the
  run numbers of the returned rows are pairwise different, they are exactly the run
  numbers of the input, so there are as many rows as distinct run numbers, and every
  row carries the label given as the second argument.
\<close>

theorem avg_runs_one_row_per_run:
  "\<exists>out. avg_runs List ty = Inr out \<and>
     length out = card (row_Run ` set List) \<and>
     distinct (map row_Run out) \<and>
     set (map row_Run out) = row_Run ` set List \<and>
     (\<forall>r\<in>set out. row_Type r = ty)"
  by (simp add: avg_runs_rows set_iter_length set_iter_distinct set_iter_set comp_def
      image_image)

theorem avg_runs_one_row_per_run_witness:
  "\<exists>out. avg_runs (example_row # example_rows) ''Fe56Nucleus'' = Inr out \<and>
     length out = 1 \<and> set (map row_Run out) = {5} \<and>
     (\<forall>r\<in>set out. row_Type r = ''Fe56Nucleus'')"
  using avg_runs_one_row_per_run [of "example_row # example_rows" "''Fe56Nucleus''"]
  by (auto simp: example_rows_def example_row_def)

text \<open>
  Claim C6, as amended. \<^verbatim>\<open>avg_runs\<close> applied to the empty list returns the empty
  list, and \<^verbatim>\<open>avg_runs\<close> raises no error on any input.
\<close>

theorem avg_runs_never_fails:
  "avg_runs [] ty = Inr [] \<and> (\<forall>e. avg_runs List ty \<noteq> Inl e)"
  by (simp add: avg_runs_rows set_iter_def)

text \<open>
  Claim C6 as stated fails: on the empty list \<^verbatim>\<open>avg_runs\<close> returns a result, the
  empty list.
\<close>

theorem avg_runs_empty_counterexample:
  "avg_runs [] ''PPlus'' = Inr []"
  by (simp add: avg_runs_def set_iter_def)

section \<open>Claims about the divisions\<close>

text \<open>
  Claim C8. No division of the two functions can have a zero divisor:
  \<^verbatim>\<open>process_showers\<close> divides by \<^verbatim>\<open>TotalPE[i]\<close> only after testing it, so neither
  one pass of its loop nor the whole function raises \<^verbatim>\<open>ZeroDivisionError\<close>; and in
  \<^verbatim>\<open>avg_runs\<close> the shower count of every run number taken from the input is at
  least 1, so it raises no \<^verbatim>\<open>ZeroDivisionError\<close> either.
\<close>

theorem divisions_guarded:
  "tank_body sg i a \<noteq> Inl ZeroDivisionError \<and>
   process_showers showers \<noteq> Inl ZeroDivisionError \<and>
   (\<forall>run\<in>row_Run ` set List. 1 \<le> t_nShowers (run_totals run List)) \<and>
   avg_runs List ty \<noteq> Inl ZeroDivisionError"
proof (intro conjI ballI)
  show "tank_body sg i a \<noteq> Inl ZeroDivisionError"
    using tank_body_error [of sg i a ZeroDivisionError] by auto
  show "process_showers showers \<noteq> Inl ZeroDivisionError"
    using process_showers_error [of showers ZeroDivisionError] by auto
  show "avg_runs List ty \<noteq> Inl ZeroDivisionError"
    by (simp add: avg_runs_rows)
next
  fix run
  assume "run \<in> row_Run ` set List"
  then show "1 \<le> t_nShowers (run_totals run List)" by (rule nShowers_positive)
qed

theorem divisions_guarded_witness:
  "5 \<in> row_Run ` set example_rows \<and>
   t_nShowers (run_totals 5 example_rows) = 2 \<and>
   1 \<le> t_nShowers (run_totals 5 example_rows) \<and>
   process_showers [example_shower] \<noteq> Inl ZeroDivisionError \<and>
   avg_runs example_rows ''PPlus'' \<noteq> Inl ZeroDivisionError"
  using divisions_guarded [of "Signals example_shower" 0
      "\<lparr>s_TimeDelay = 0, s_Q = 0, s_MuonVEM = 0, s_nMuons = 0\<rparr>" "[example_shower]"
      example_rows "''PPlus''"]
  by (simp add: example_rows_def run_totals_def add_shower_def)

end
